theory Spec2Isabelle
  imports Complex_Main
begin

section \<open>Values shared by the tool-discovery subsystem\<close>

text \<open>
  JavaScript strings are modelled as \<open>string\<close>: every character is one code unit below 256.
  A JavaScript number is modelled by the real number it denotes. Where the REGEX provider
  computes a score, every operation is followed by the rounding of IEEE doubles (section
  JavaScript numbers); the BM25 score, which goes through \<open>Math.log\<close>, is given without
  rounding. JSON values carried through the system opaquely (tool schemas, call
  arguments, request bodies) are values of \<open>json\<close>; an object is the list of its
  properties in order, each key once.
\<close>

datatype json =
    JNull
  | JBool bool
  | JNum real
  | JStr string
  | JArr "json list"
  | JObj "(string \<times> json) list"

text \<open>
  An MCP tool, with the properties the subsystem reads, and the one it may add
  (\<open>defer_loading\<close>). An optional property that is absent is \<open>None\<close>.
\<close>

record Tool =
  name :: string
  description :: "string option"
  inputSchema :: "json option"
  defer_loading :: "bool option"

datatype SearchMethod = NONE | REGEX | BM25 | EMBEDDINGS

section \<open>JavaScript built-ins used by the search code\<close>

text \<open>Code units and the character classes of them that the code tests.\<close>

definition code_unit :: "char \<Rightarrow> nat" where
  "code_unit c = of_char c"

text \<open>
  \<open>String.prototype.toLowerCase\<close> on code units below 256: the letters A to Z and the
  Latin-1 capitals (0xC0 to 0xDE, without the multiplication sign 0xD7) move up by 32.
\<close>

definition toLowerCase_char :: "char \<Rightarrow> char" where
  "toLowerCase_char c =
     (if (65 \<le> code_unit c \<and> code_unit c \<le> 90) \<or>
         (192 \<le> code_unit c \<and> code_unit c \<le> 222 \<and> code_unit c \<noteq> 215)
      then char_of (code_unit c + 32) else c)"

definition toLowerCase :: "string \<Rightarrow> string" where
  "toLowerCase s = map toLowerCase_char s"

text \<open>The regular-expression class \<open>\w\<close>, that is \<open>[A-Za-z0-9_]\<close>; \<open>\W\<close> is its complement.\<close>

definition is_word_char :: "char \<Rightarrow> bool" where
  "is_word_char c =
     ((48 \<le> code_unit c \<and> code_unit c \<le> 57) \<or>
      (65 \<le> code_unit c \<and> code_unit c \<le> 90) \<or>
      (97 \<le> code_unit c \<and> code_unit c \<le> 122) \<or>
      code_unit c = 95)"

text \<open>The class \<open>[A-Za-z0-9]\<close> of the specification's tokenizer.\<close>

definition is_alnum_char :: "char \<Rightarrow> bool" where
  "is_alnum_char c =
     ((48 \<le> code_unit c \<and> code_unit c \<le> 57) \<or>
      (65 \<le> code_unit c \<and> code_unit c \<le> 90) \<or>
      (97 \<le> code_unit c \<and> code_unit c \<le> 122))"

text \<open>
  White space and line terminators below 256, which \<open>String.prototype.trim\<close> strips from
  both ends: tab, line feed, vertical tab, form feed, carriage return, space and
  no-break space.
\<close>

definition is_js_space :: "char \<Rightarrow> bool" where
  "is_js_space c = (code_unit c \<in> {9, 10, 11, 12, 13, 32, 160})"

definition trim :: "string \<Rightarrow> string" where
  "trim s = rev (dropWhile is_js_space (rev (dropWhile is_js_space s)))"

text \<open>
  \<open>s.split(/C+/)\<close> for a character class \<open>C\<close> (\<open>sep\<close>): the pieces of \<open>s\<close> between the
  maximal runs of separator characters. \<open>cur\<close> is the piece being read. A separator at
  the start or at the end of \<open>s\<close> gives an empty first or last piece, and the empty string
  gives one empty piece.
\<close>

function js_split_runs :: "(char \<Rightarrow> bool) \<Rightarrow> string \<Rightarrow> string \<Rightarrow> string list" where
  "js_split_runs sep cur [] = [cur]"
| "js_split_runs sep cur (c # cs) =
     (if sep c then cur # js_split_runs sep [] (dropWhile sep cs)
      else js_split_runs sep (cur @ [c]) cs)"
  by pat_completeness auto
termination
  by (relation "measure (\<lambda>(sep, cur, s). length s)")
     (auto simp: length_dropWhile_le less_Suc_eq_le)

text \<open>\<open>Array.prototype.slice(0, n)\<close>: a negative \<open>n\<close> counts from the end.\<close>

definition slice0 :: "int \<Rightarrow> 'a list \<Rightarrow> 'a list" where
  "slice0 n xs = (if n < 0 then take (nat (int (length xs) + n)) xs else take (nat n) xs)"

text \<open>\<open>Array.prototype.join\<close>.\<close>

fun join :: "string \<Rightarrow> string list \<Rightarrow> string" where
  "join sep [] = []"
| "join sep [x] = x"
| "join sep (x # y # ys) = x @ sep @ join sep (y # ys)"

text \<open>\<open>[...new Set(xs)]\<close>: the distinct elements in the order of their first occurrence.\<close>

definition unique :: "'a list \<Rightarrow> 'a list" where
  "unique xs = rev (remdups (rev xs))"

text \<open>A natural number in a template literal: its decimal digits.\<close>

fun string_of_nat :: "nat \<Rightarrow> string" where
  "string_of_nat n =
     (if n < 10 then [char_of (48 + n)]
      else string_of_nat (n div 10) @ [char_of (48 + n mod 10)])"

datatype js_error = Error string | SyntaxError string

section \<open>JavaScript numbers\<close>

text \<open>
  A number of the running program is an IEEE 754 double. A finite double is modelled by
  the real number it denotes, and an arithmetic operation by the exact operation on the
  reals followed by \<open>round_double\<close>, the rounding to the nearest double with ties going to
  the even significand. A double has 53 significant bits: in the binade of \<open>x\<close>, the
  exponent \<open>e\<close> with \<open>2^e \<le> |x| < 2^(e+1)\<close>, the doubles are the multiples of \<open>2^(e-52)\<close>;
  below \<open>2^(-1022)\<close> they are the multiples of \<open>2^(-1074)\<close>. Infinities and NaN are not
  values of the model: no number of the scoring code comes near the largest double.
\<close>

definition pow2 :: "int \<Rightarrow> real" where
  "pow2 k = (if 0 \<le> k then 2 ^ nat k else 1 / 2 ^ nat (- k))"

definition round_half_even :: "real \<Rightarrow> int" where
  "round_half_even y =
     (let f = \<lfloor>y\<rfloor>
      in if y - of_int f < 1 / 2 then f
         else if 1 / 2 < y - of_int f then f + 1
         else if even f then f else f + 1)"

definition binade :: "real \<Rightarrow> int" where
  "binade x = max (- 1022) \<lfloor>log 2 \<bar>x\<bar>\<rfloor>"

definition round_double :: "real \<Rightarrow> real" where
  "round_double x =
     (if x = 0 then 0
      else of_int (round_half_even (x / pow2 (binade x - 52))) * pow2 (binade x - 52))"

text \<open>
  The operators \<open>+\<close>, \<open>-\<close> and \<open>*\<close> on doubles. A decimal literal such as \<open>0.6\<close> denotes
  \<open>round_double 0.6\<close>; \<open>0\<close>, \<open>0.5\<close> and \<open>1.0\<close> are doubles and denote themselves, and so does
  an array index or a string length. \<open>Math.max\<close> and \<open>Math.min\<close> of two doubles return
  one of them and do not round.
\<close>

definition double_add :: "real \<Rightarrow> real \<Rightarrow> real" where
  "double_add x y = round_double (x + y)"

definition double_sub :: "real \<Rightarrow> real \<Rightarrow> real" where
  "double_sub x y = round_double (x - y)"

definition double_mul :: "real \<Rightarrow> real \<Rightarrow> real" where
  "double_mul x y = round_double (x * y)"

text \<open>The sum of a list of doubles, added from the left to an accumulator that starts at 0.\<close>

definition double_sum :: "real list \<Rightarrow> real" where
  "double_sum xs = fold (\<lambda>x total. double_add total x) xs 0"

section \<open>Search interface (tool-search/search-interface.ts)\<close>

text \<open>
  The provider configuration reaches the factory as \<open>unknown\<close> and is cast to the
  provider's configuration interface without a check. It is modelled with the optional
  properties those interfaces declare; \<open>None\<close> for the whole configuration stands for
  \<open>undefined\<close> and \<open>null\<close>.
\<close>

record ProviderConfig =
  cfg_pattern :: "string option"
  cfg_caseInsensitive :: "bool option"
  cfg_fields :: "string list option"
  cfg_k1 :: "real option"
  cfg_b :: "real option"

definition empty_config :: ProviderConfig where
  "empty_config =
     \<lparr> cfg_pattern = None, cfg_caseInsensitive = None, cfg_fields = None,
       cfg_k1 = None, cfg_b = None \<rparr>"

text \<open>The configuration the service is called with (tool-search-service.ts).\<close>

record ResolvedSearchConfig =
  searchMethod :: SearchMethod
  maxResults :: int
  providerConfig :: "ProviderConfig option"

text \<open>
  \<open>maxResults\<close> is optional; a value is an integer. The two optional UUIDs of the query,
  which no provider reads, are left out.
\<close>

record ToolSearchQuery =
  query :: string
  maxResults :: "int option"

record ToolWithServer =
  tool :: Tool
  serverUuid :: string

record ToolSearchResult = ToolWithServer +
  score :: real
  matchReason :: string

text \<open>\<open>query.maxResults || 5\<close>: absent and 0 both give 5.\<close>

definition maxResults_or :: "int option \<Rightarrow> int \<Rightarrow> int" where
  "maxResults_or m d = (case m of None \<Rightarrow> d | Some n \<Rightarrow> if n = 0 then d else n)"

text \<open>The result both providers give for a tool when there is nothing to search for.\<close>

definition neutral_result :: "string \<Rightarrow> ToolWithServer \<Rightarrow> ToolSearchResult" where
  "neutral_result reason a =
     \<lparr> tool = tool a, serverUuid = serverUuid a, score = 0.5, matchReason = reason \<rparr>"

text \<open>
  \<open>results.sort((a, b) => b.score - a.score)\<close>: a stable sort by descending score.
\<close>

definition sort_by_score :: "ToolSearchResult list \<Rightarrow> ToolSearchResult list" where
  "sort_by_score results = sort_key (\<lambda>r. - score r) results"

section \<open>REGEX provider (tool-search/regex-search-provider.ts)\<close>

text \<open>
  The provider's configuration. Its property \<open>fields\<close> is \<open>config_fields\<close> here, the name
  \<open>fields\<close> being taken in records.
\<close>

record RegexSearchConfig =
  pattern :: "string option"
  caseInsensitive :: "bool option"
  config_fields :: "string list option"

text \<open>
  \<open>new RegExp(pattern, flags)\<close> belongs to the language, not to the repository, and is a
  parameter of the model. An engine takes the pattern and whether the flag \<open>i\<close> is set; it
  throws a \<open>SyntaxError\<close> (\<open>None\<close>) or returns the compiled expression, given by what its
  \<open>exec\<close> finds in a text: nothing, or the index and the length of the first match.
\<close>

type_synonym regexp = "string \<Rightarrow> (nat \<times> nat) option"
type_synonym regexp_engine = "string \<Rightarrow> bool \<Rightarrow> regexp option"

record RegexMatch =
  match_field :: string
  match_index :: nat
  match_length :: nat

definition default_regex_config :: RegexSearchConfig where
  "default_regex_config =
     \<lparr> pattern = None, caseInsensitive = Some True,
       config_fields = Some [''name'', ''description''] \<rparr>"

definition regex_metachars :: string where
  "regex_metachars = ''.*+?^${}()|[]'' @ [CHR 0x5C]"

definition escapeRegexLiteral :: "string \<Rightarrow> string" where
  "escapeRegexLiteral str =
     concat (map (\<lambda>c. if c \<in> set regex_metachars then [CHR 0x5C, c] else [c]) str)"

text \<open>\<open>tool.description || ""\<close> and the like: an absent string reads as the empty one.\<close>

definition or_empty :: "string option \<Rightarrow> string" where
  "or_empty s = (case s of None \<Rightarrow> [] | Some d \<Rightarrow> d)"

definition searchTool :: "Tool \<Rightarrow> regexp \<Rightarrow> string list \<Rightarrow> RegexMatch list" where
  "searchTool t regex fs =
     concat (map (\<lambda>field.
        (case regex (if field = ''name'' then name t else or_empty (description t)) of
           Some (i, l) \<Rightarrow> [\<lparr> match_field = field, match_index = i, match_length = l \<rparr>]
         | None \<Rightarrow> [])) fs)"

text \<open>
  The body of the loop of \<open>calculateScore\<close>: the score of one match, built up from 0 by
  the three \<open>+=\<close> of the code, in double arithmetic.
\<close>

definition match_score :: "RegexMatch \<Rightarrow> real" where
  "match_score m =
     (let score = 0;
          score = double_add score
                    (if match_field m = ''name'' then round_double 0.6 else round_double 0.3);
          positionBonus =
            max (round_double 0.05)
              (double_sub (round_double 0.2)
                 (double_mul (real (match_index m)) (round_double 0.003)));
          score = double_add score positionBonus;
          lengthBonus =
            min (round_double 0.2) (double_mul (real (match_length m)) (round_double 0.02));
          score = double_add score lengthBonus
      in score)"

definition calculateScore :: "RegexMatch list \<Rightarrow> real" where
  "calculateScore matches =
     min 1.0 (fold (\<lambda>m totalScore. double_add totalScore (match_score m)) matches 0)"

definition regex_buildMatchReason :: "RegexMatch list \<Rightarrow> string" where
  "regex_buildMatchReason matches =
     (let uniqueFields = unique (map match_field matches)
      in if length uniqueFields = 1 then ''Matched in '' @ hd uniqueFields
         else ''Matched in '' @ join '', '' uniqueFields)"

definition no_query_reason :: string where
  "no_query_reason = ''No search query provided''"

definition regex_results ::
  "regexp \<Rightarrow> string list \<Rightarrow> ToolWithServer list \<Rightarrow> ToolSearchResult list" where
  "regex_results regex fs availableTools =
     concat (map (\<lambda>a.
        (let matches = searchTool (tool a) regex fs
         in if length matches > 0
            then [\<lparr> tool = tool a, serverUuid = serverUuid a,
                    score = calculateScore matches,
                    matchReason = regex_buildMatchReason matches \<rparr>]
            else [])) availableTools)"

text \<open>
  The expression a search matches with: the configured pattern, or else the query with
  its metacharacters escaped; if that does not compile, the escaped query.
\<close>

definition build_regex :: "regexp_engine \<Rightarrow> RegexSearchConfig \<Rightarrow> ToolSearchQuery \<Rightarrow> regexp option" where
  "build_regex RegExp config q =
     (let pat = (case pattern config of
                   Some p \<Rightarrow> if p \<noteq> [] then p else escapeRegexLiteral (query q)
                 | None \<Rightarrow> escapeRegexLiteral (query q));
          flag_i = (caseInsensitive config = Some True)
      in case RegExp pat flag_i of
           Some r \<Rightarrow> Some r
         | None \<Rightarrow> RegExp (escapeRegexLiteral (query q)) flag_i)"

definition fields_or_default :: "RegexSearchConfig \<Rightarrow> string list" where
  "fields_or_default config =
     (case config_fields config of Some fs \<Rightarrow> fs | None \<Rightarrow> [''name'', ''description''])"

definition regex_search ::
  "regexp_engine \<Rightarrow> RegexSearchConfig \<Rightarrow> ToolSearchQuery \<Rightarrow> ToolWithServer list
     \<Rightarrow> js_error + ToolSearchResult list" where
  "regex_search RegExp config q availableTools =
     (let hasCustomPattern = (pattern config \<noteq> None);
          hasQuery = (query q \<noteq> [] \<and> length (trim (query q)) > 0)
      in if \<not> hasCustomPattern \<and> \<not> hasQuery
         then Inr (map (neutral_result no_query_reason)
                     (slice0 (maxResults_or (maxResults q) 5) availableTools))
         else
           (case build_regex RegExp config q of
              None \<Rightarrow> Inl (SyntaxError ''Invalid regular expression'')
            | Some regex \<Rightarrow>
                Inr (slice0 (maxResults_or (maxResults q) 5)
                       (sort_by_score
                          (regex_results regex (fields_or_default config) availableTools)))))"

section \<open>BM25 provider (tool-search/bm25-search-provider.ts)\<close>

text \<open>
  The provider's parameters. Its index (\<open>documents\<close>, \<open>avgDocLength\<close>, \<open>idfCache\<close>) is built
  anew by every search that reaches it and read by nothing else, so a search is modelled
  as a function of the parameters (\<open>b\<close> is \<open>b_param\<close> here, \<open>fields\<close> is \<open>bm25_fields\<close>).
  Division by zero, which gives an infinity or NaN in JavaScript, is not modelled; with
  \<open>k1\<close> and \<open>b\<close> not negative no denominator that is used is zero.
\<close>

record BM25Params =
  k1 :: real
  b_param :: real
  bm25_fields :: "string list"

definition default_bm25_params :: BM25Params where
  "default_bm25_params = \<lparr> k1 = 1.2, b_param = 0.75, bm25_fields = [''name'', ''description''] \<rparr>"

record Document = ToolWithServer +
  tokens :: "string \<rightharpoonup> nat"
  doc_length :: nat

definition extractText :: "string list \<Rightarrow> Tool \<Rightarrow> string" where
  "extractText fs t =
     join '' '' (concat (map (\<lambda>field.
        if field = ''name'' then [name t]
        else if field = ''description'' \<and> or_empty (description t) \<noteq> []
             then [or_empty (description t)]
             else []) fs))"

definition tokenize :: "string \<Rightarrow> string list" where
  "tokenize text =
     filter (\<lambda>token. length token > 0) (js_split_runs (\<lambda>c. \<not> is_word_char c) [] (toLowerCase text))"

definition calculateTermFrequency :: "string list \<Rightarrow> (string \<rightharpoonup> nat)" where
  "calculateTermFrequency toks =
     fold (\<lambda>token freq. freq(token \<mapsto> (case freq token of None \<Rightarrow> 0 | Some n \<Rightarrow> n) + 1))
       toks Map.empty"

definition buildDocuments :: "string list \<Rightarrow> ToolWithServer list \<Rightarrow> Document list" where
  "buildDocuments fs availableTools =
     map (\<lambda>a. let toks = tokenize (extractText fs (tool a))
               in \<lparr> tool = tool a, serverUuid = serverUuid a,
                    tokens = calculateTermFrequency toks, doc_length = length toks \<rparr>)
       availableTools"

definition avgDocLength :: "Document list \<Rightarrow> real" where
  "avgDocLength documents =
     (if length documents > 0
      then real (sum_list (map doc_length documents)) / real (length documents)
      else 0)"

text \<open>
  \<open>computeIDF\<close>: the cache has an entry for exactly the terms of some document; \<open>df\<close> is the
  number of documents the term occurs in.
\<close>

definition computeIDF :: "Document list \<Rightarrow> (string \<rightharpoonup> real)" where
  "computeIDF documents term =
     (let N = length documents;
          df = length (filter (\<lambda>d. tokens d term \<noteq> None) documents)
      in if df = 0 then None
         else Some (ln ((real N - real df + 0.5) / (real df + 0.5) + 1)))"

definition calculateBM25Score ::
  "BM25Params \<Rightarrow> Document list \<Rightarrow> string list \<Rightarrow> Document \<Rightarrow> real" where
  "calculateBM25Score p documents queryTokens doc =
     (let normFactor =
            1 - b_param p + b_param p * (real (doc_length doc) / avgDocLength documents);
          total =
            fold (\<lambda>term s.
                    let idf = (case computeIDF documents term of None \<Rightarrow> 0 | Some v \<Rightarrow> v);
                        termFreq = (case tokens doc term of None \<Rightarrow> 0 | Some n \<Rightarrow> n)
                    in if termFreq > 0
                       then s + idf * ((real termFreq * (k1 p + 1)) /
                                       (real termFreq + k1 p * normFactor))
                       else s)
                 queryTokens 0;
          maxPossibleScore =
            real (length queryTokens) * ln (real (length documents) + 1) * (k1 p + 1)
      in if maxPossibleScore > 0 then min 1.0 (total / maxPossibleScore) else 0)"

definition bm25_buildMatchReason :: "string list \<Rightarrow> Document \<Rightarrow> string" where
  "bm25_buildMatchReason queryTokens doc =
     (let matchedTerms = filter (\<lambda>term. tokens doc term \<noteq> None) queryTokens;
          uniqueMatched = unique matchedTerms;
          quoted = (\<lambda>t. [CHR 0x22] @ t @ [CHR 0x22])
      in if length matchedTerms = 0 then ''No direct term matches''
         else if length uniqueMatched = 1 then ''Matched term: '' @ quoted (hd uniqueMatched)
         else if length uniqueMatched \<le> 3
              then ''Matched terms: '' @ join '', '' (map quoted uniqueMatched)
              else ''Matched '' @ string_of_nat (length uniqueMatched) @ '' terms'')"

definition bm25_search ::
  "BM25Params \<Rightarrow> ToolSearchQuery \<Rightarrow> ToolWithServer list \<Rightarrow> ToolSearchResult list" where
  "bm25_search p q availableTools =
     (if query q = [] \<or> length (trim (query q)) = 0
      then map (neutral_result no_query_reason)
             (slice0 (maxResults_or (maxResults q) 5) availableTools)
      else
        (let documents = buildDocuments (bm25_fields p) availableTools;
             queryTokens = tokenize (query q)
         in if length queryTokens = 0 then []
            else slice0 (maxResults_or (maxResults q) 5)
                   (sort_by_score
                      (concat (map (\<lambda>doc.
                         (let s = calculateBM25Score p documents queryTokens doc
                          in if s > 0
                             then [\<lparr> tool = tool doc, serverUuid = serverUuid doc, score = s,
                                     matchReason = bm25_buildMatchReason queryTokens doc \<rparr>]
                             else [])) documents)))))"

section \<open>Provider factory and search service\<close>

datatype provider = RegexSearchProvider RegexSearchConfig | BM25SearchProvider BM25Params

text \<open>\<open>{ ...this.config, ...config }\<close>: a property the argument has replaces the current one.\<close>

definition regex_initialize :: "RegexSearchConfig \<Rightarrow> ProviderConfig \<Rightarrow> RegexSearchConfig" where
  "regex_initialize cur c =
     \<lparr> pattern = (case cfg_pattern c of Some p \<Rightarrow> Some p | None \<Rightarrow> pattern cur),
       caseInsensitive =
         (case cfg_caseInsensitive c of Some v \<Rightarrow> Some v | None \<Rightarrow> caseInsensitive cur),
       config_fields = (case cfg_fields c of Some fs \<Rightarrow> Some fs | None \<Rightarrow> config_fields cur) \<rparr>"

definition bm25_initialize :: "BM25Params \<Rightarrow> ProviderConfig \<Rightarrow> BM25Params" where
  "bm25_initialize cur c =
     \<lparr> k1 = (case cfg_k1 c of Some v \<Rightarrow> v | None \<Rightarrow> k1 cur),
       b_param = (case cfg_b c of Some v \<Rightarrow> v | None \<Rightarrow> b_param cur),
       bm25_fields = (case cfg_fields c of Some fs \<Rightarrow> fs | None \<Rightarrow> bm25_fields cur) \<rparr>"

definition initialize :: "provider \<Rightarrow> ProviderConfig \<Rightarrow> provider" where
  "initialize p c =
     (case p of
        RegexSearchProvider cur \<Rightarrow> RegexSearchProvider (regex_initialize cur c)
      | BM25SearchProvider cur \<Rightarrow> BM25SearchProvider (bm25_initialize cur c))"

text \<open>The registry after the class's static block: REGEX and BM25.\<close>

definition providers :: "SearchMethod \<rightharpoonup> provider" where
  "providers method =
     (if method = REGEX then Some (RegexSearchProvider default_regex_config)
      else if method = BM25 then Some (BM25SearchProvider default_bm25_params)
      else None)"

definition method_name :: "SearchMethod \<Rightarrow> string" where
  "method_name method =
     (case method of NONE \<Rightarrow> ''NONE'' | REGEX \<Rightarrow> ''REGEX'' | BM25 \<Rightarrow> ''BM25''
      | EMBEDDINGS \<Rightarrow> ''EMBEDDINGS'')"

definition create :: "SearchMethod \<Rightarrow> ProviderConfig option \<Rightarrow> js_error + provider" where
  "create method config =
     (if method = NONE
      then Inl (Error ''Cannot create provider for NONE search method. Use a specific search method.'')
      else case providers method of
             None \<Rightarrow>
               Inl (Error (''Search provider '' @ [CHR 0x22] @ method_name method @ [CHR 0x22] @
                           '' is not registered. Available providers: REGEX, BM25''))
           | Some fresh \<Rightarrow>
               Inr (case config of Some c \<Rightarrow> initialize fresh c | None \<Rightarrow> fresh))"

definition provider_search ::
  "regexp_engine \<Rightarrow> provider \<Rightarrow> ToolSearchQuery \<Rightarrow> ToolWithServer list
     \<Rightarrow> js_error + ToolSearchResult list" where
  "provider_search RegExp p q availableTools =
     (case p of
        RegexSearchProvider config \<Rightarrow> regex_search RegExp config q availableTools
      | BM25SearchProvider params \<Rightarrow> Inr (bm25_search params q availableTools))"

text \<open>
  The service's provider cache. Its key is the method together with
  \<open>JSON.stringify(config || {})\<close>, modelled by the configuration itself.
\<close>

record service_state =
  providerCache :: "(SearchMethod \<times> ProviderConfig) \<rightharpoonup> provider"

definition getProvider ::
  "SearchMethod \<Rightarrow> ProviderConfig option \<Rightarrow> service_state
     \<Rightarrow> (js_error + provider) \<times> service_state" where
  "getProvider method config st =
     (let cacheKey = (method, case config of Some c \<Rightarrow> c | None \<Rightarrow> empty_config)
      in case providerCache st cacheKey of
           Some p \<Rightarrow> (Inr p, st)
         | None \<Rightarrow>
             (case create method config of
                Inl e \<Rightarrow> (Inl e, st)
              | Inr p \<Rightarrow> (Inr p, st\<lparr> providerCache := (providerCache st)(cacheKey \<mapsto> p) \<rparr>)))"

definition search_disabled_reason :: string where
  "search_disabled_reason = ''Search disabled (method: NONE)''"

definition service_search ::
  "regexp_engine \<Rightarrow> ToolSearchQuery \<Rightarrow> ToolWithServer list \<Rightarrow> ResolvedSearchConfig
     \<Rightarrow> service_state \<Rightarrow> (js_error + ToolSearchResult list) \<times> service_state" where
  "service_search RegExp q availableTools config st =
     (if ResolvedSearchConfig.searchMethod config = NONE
      then (Inr (map (\<lambda>a. \<lparr> tool = tool a, serverUuid = serverUuid a, score = 0.5,
                            matchReason = search_disabled_reason \<rparr>) availableTools), st)
      else case getProvider (ResolvedSearchConfig.searchMethod config) (providerConfig config) st of
             (Inl e, st') \<Rightarrow> (Inl e, st')
           | (Inr p, st') \<Rightarrow>
               (provider_search RegExp p
                  (q\<lparr> ToolSearchQuery.maxResults :=
                        Some (maxResults_or (ToolSearchQuery.maxResults q)
                                (ResolvedSearchConfig.maxResults config)) \<rparr>)
                  availableTools, st'))"

section \<open>A regular-expression engine for literal patterns\<close>

text \<open>
  JavaScript's \<open>RegExp\<close> on the patterns that contain no metacharacter except escaped ones:
  such an expression matches its literal text, and \<open>exec\<close> finds the leftmost occurrence.
  With the flag \<open>i\<close> code units are compared after canonicalization (upper-casing; below
  256 that moves a to z and 0xE0 to 0xFE without 0xF7 down by 32). This engine answers
  only for such patterns; for every other pattern it gives \<open>None\<close>. It is used to run
  examples; the general theorems hold for every engine.
\<close>

fun unescape_literal :: "string \<Rightarrow> string option" where
  "unescape_literal [] = Some []"
| "unescape_literal [c] = (if c \<in> set regex_metachars then None else Some [c])"
| "unescape_literal (c # d # rest) =
     (if c = CHR 0x5C
      then (if d \<in> set regex_metachars
            then map_option ((#) d) (unescape_literal rest) else None)
      else if c \<in> set regex_metachars then None
      else map_option ((#) c) (unescape_literal (d # rest)))"

definition canonicalize_char :: "char \<Rightarrow> char" where
  "canonicalize_char c =
     (if (97 \<le> code_unit c \<and> code_unit c \<le> 122) \<or>
         (224 \<le> code_unit c \<and> code_unit c \<le> 254 \<and> code_unit c \<noteq> 247)
      then char_of (code_unit c - 32) else c)"

fun find_from :: "nat \<Rightarrow> string \<Rightarrow> string \<Rightarrow> nat option" where
  "find_from i needle [] = (if needle = [] then Some i else None)"
| "find_from i needle (c # cs) =
     (if take (length needle) (c # cs) = needle then Some i
      else find_from (Suc i) needle cs)"

definition literal_RegExp :: regexp_engine where
  "literal_RegExp pat flag_i =
     (case unescape_literal pat of
        None \<Rightarrow> None
      | Some lit \<Rightarrow>
          Some (\<lambda>text.
            map_option (\<lambda>i. (i, length lit))
              (if flag_i
               then find_from 0 (map canonicalize_char lit) (map canonicalize_char text)
               else find_from 0 lit text)))"

section \<open>Built-in execute tool (builtin-tools/tool-execute-tool.ts)\<close>

definition TOOL_SEARCH_TOOL_NAME :: string where
  "TOOL_SEARCH_TOOL_NAME = ''metamcp_search_tools''"

definition TOOL_EXECUTE_TOOL_NAME :: string where
  "TOOL_EXECUTE_TOOL_NAME = ''metamcp_execute_tool''"

text \<open>
  A call result: its content blocks and the optional \<open>isError\<close>. The dispatcher itself
  builds text blocks only; what a proxied call returns may hold any block.
\<close>

datatype content_block = TextContent string | OtherContent json

record CallToolResult =
  content :: "content_block list"
  isError :: "bool option"

record ToolExecuteArguments =
  tool_name :: string
  arguments :: json

text \<open>
  The validator library and \<open>JSON.stringify\<close> are not part of the repository and are
  parameters. \<open>ajv.compile(schema)\<close> throws, with a message, or returns the validating
  function; that function returns whether the value is valid and leaves its \<open>errors\<close>
  (\<open>None\<close> for \<open>null\<close>).
\<close>

record ErrorObject =
  instancePath :: string
  schemaPath :: string
  keyword :: string
  message :: "string option"

type_synonym validate_fn = "json \<Rightarrow> bool \<times> ErrorObject list option"
type_synonym ajv = "json \<Rightarrow> string + validate_fn"

record validation_result =
  valid :: bool
  errors :: "ErrorObject list"

text \<open>Whether a JSON value counts as true in a condition.\<close>

definition js_truthy :: "json \<Rightarrow> bool" where
  "js_truthy v =
     (case v of
        JNull \<Rightarrow> False
      | JBool x \<Rightarrow> x
      | JNum x \<Rightarrow> x \<noteq> 0
      | JStr s \<Rightarrow> s \<noteq> []
      | JArr xs \<Rightarrow> True
      | JObj kvs \<Rightarrow> True)"

definition default_schema :: json where
  "default_schema =
     JObj [(''type'', JStr ''object''), (''properties'', JObj []),
           (''additionalProperties'', JBool True)]"

definition validateToolArguments :: "ajv \<Rightarrow> Tool \<Rightarrow> json \<Rightarrow> validation_result" where
  "validateToolArguments compile t args =
     (let schema = (case inputSchema t of
                      Some s \<Rightarrow> if js_truthy s then s else default_schema
                    | None \<Rightarrow> default_schema)
      in case compile schema of
           Inr validate \<Rightarrow>
             (case validate args of
                (ok, errs) \<Rightarrow>
                  \<lparr> valid = ok, errors = (case errs of Some es \<Rightarrow> es | None \<Rightarrow> []) \<rparr>)
         | Inl err \<Rightarrow>
             \<lparr> valid = False,
               errors = [\<lparr> instancePath = [], schemaPath = [], keyword = ''schema'',
                           message = Some (''Invalid tool schema: '' @ err) \<rparr>] \<rparr>)"

definition newline :: string where
  "newline = [CHR 0x0A]"

definition quoted :: "string \<Rightarrow> string" where
  "quoted s = [CHR 0x22] @ s @ [CHR 0x22]"

definition formatValidationErrors ::
  "(json option \<Rightarrow> string) \<Rightarrow> ErrorObject list \<Rightarrow> Tool \<Rightarrow> string" where
  "formatValidationErrors stringify errs t =
     (let maxErrors = 10;
          displayErrors = take maxErrors errs;
          remaining = int (length errs) - int maxErrors;
          errorMessages =
            join newline
              (map (\<lambda>err. ''  - '' @
                      (if instancePath err \<noteq> [] then instancePath err else ''(root)'') @
                      '': '' @ (case message err of Some m \<Rightarrow> m | None \<Rightarrow> ''undefined''))
                 displayErrors);
          moreErrors =
            (if remaining > 0
             then newline @ ''  ... and '' @ string_of_nat (nat remaining) @ '' more errors''
             else [])
      in ''Tool '' @ quoted (name t) @ '' validation failed:'' @ newline @ newline @
         errorMessages @ moreErrors @ newline @ newline @
         ''Expected schema:'' @ newline @ replicate 3 (CHR 0x60) @ ''json'' @ newline @
         stringify (inputSchema t) @ newline @ replicate 3 (CHR 0x60))"

definition error_result :: "string \<Rightarrow> CallToolResult" where
  "error_result text = \<lparr> content = [TextContent text], isError = Some True \<rparr>"

text \<open>
  \<open>proxyFunction\<close> reaches the upstream server: it acts on a world \<open>'w\<close> and either throws,
  with a message, or returns a result. The handler context, which the function does not
  read, is left out.
\<close>

definition executeToolExecution ::
  "ajv \<Rightarrow> (json option \<Rightarrow> string) \<Rightarrow>
   (string \<Rightarrow> json \<Rightarrow> 'w \<Rightarrow> (string + CallToolResult) \<times> 'w) \<Rightarrow>
   ToolExecuteArguments \<Rightarrow> ToolWithServer list \<Rightarrow> 'w \<Rightarrow> CallToolResult \<times> 'w" where
  "executeToolExecution compile stringify proxyFunction args availableTools w =
     (if tool_name args = TOOL_EXECUTE_TOOL_NAME \<or> tool_name args = TOOL_SEARCH_TOOL_NAME
      then (error_result (''Error: Cannot execute builtin tool '' @ quoted (tool_name args) @
                          '' via metamcp_execute_tool''), w)
      else
        (case find (\<lambda>t. name (tool t) = tool_name args) availableTools of
           None \<Rightarrow>
             (let toolList =
                    join newline (map (\<lambda>t. ''  - '' @ name (tool t)) (take 10 availableTools));
                  moreTools =
                    (if length availableTools > 10
                     then newline @ ''  ... and '' @
                          string_of_nat (length availableTools - 10) @ '' more tools''
                     else [])
              in (error_result (''Error: Tool '' @ quoted (tool_name args) @ '' not found.'' @
                                newline @ newline @ ''Available tools:'' @ newline @
                                toolList @ moreTools @ newline @ newline @
                                ''Use metamcp_search_tools to discover tools.''), w))
         | Some targetTool \<Rightarrow>
             (let validationResult =
                    validateToolArguments compile (tool targetTool) (arguments args)
              in if \<not> valid validationResult
                 then (error_result
                         (formatValidationErrors stringify (errors validationResult)
                            (tool targetTool)), w)
                 else
                   (case proxyFunction (tool_name args) (arguments args) w of
                      (Inr result, w') \<Rightarrow> (result, w')
                    | (Inl msg, w') \<Rightarrow>
                        (error_result (''Error executing tool '' @ quoted (tool_name args) @
                                       '': '' @ msg), w')))))"

section \<open>Request schemas (zod-types/tool-search.zod.ts) and the config router\<close>

text \<open>
  The schema combinators of the validation library that the file uses. A number schema
  carries its bounds and whether \<open>.int()\<close> was applied.
\<close>

datatype zod =
    ZString
  | ZStringUuid
  | ZNumber "real option" "real option" bool
  | ZBoolean
  | ZUnknown
  | ZEnum "string list"
  | ZArray zod
  | ZRecord zod
  | ZObject "(string \<times> zod) list"
  | ZNullable zod
  | ZOptional zod

text \<open>
  Whether parsing an input with a schema succeeds. The input is \<open>None\<close> for \<open>undefined\<close>,
  which is what an object schema sees for a key the object does not have. An object
  schema accepts (and strips) keys it does not name. The library's test for the UUID
  format is the parameter \<open>uuid\<close>.
\<close>

fun zod_accepts :: "(string \<Rightarrow> bool) \<Rightarrow> zod \<Rightarrow> json option \<Rightarrow> bool"
  and zod_accepts_fields ::
    "(string \<Rightarrow> bool) \<Rightarrow> (string \<times> zod) list \<Rightarrow> (string \<times> json) list \<Rightarrow> bool" where
  "zod_accepts uuid ZString input = (case input of Some (JStr s) \<Rightarrow> True | _ \<Rightarrow> False)"
| "zod_accepts uuid ZStringUuid input = (case input of Some (JStr s) \<Rightarrow> uuid s | _ \<Rightarrow> False)"
| "zod_accepts uuid (ZNumber lo hi whole) input =
     (case input of
        Some (JNum x) \<Rightarrow>
          (case lo of None \<Rightarrow> True | Some l \<Rightarrow> l \<le> x) \<and>
          (case hi of None \<Rightarrow> True | Some h \<Rightarrow> x \<le> h) \<and>
          (if whole then x \<in> \<int> else True)
      | _ \<Rightarrow> False)"
| "zod_accepts uuid ZBoolean input = (case input of Some (JBool v) \<Rightarrow> True | _ \<Rightarrow> False)"
| "zod_accepts uuid ZUnknown input = True"
| "zod_accepts uuid (ZEnum vs) input =
     (case input of Some (JStr s) \<Rightarrow> s \<in> set vs | _ \<Rightarrow> False)"
| "zod_accepts uuid (ZArray s) input =
     (case input of
        Some (JArr xs) \<Rightarrow> list_all (\<lambda>x. zod_accepts uuid s (Some x)) xs
      | _ \<Rightarrow> False)"
| "zod_accepts uuid (ZRecord s) input =
     (case input of
        Some (JObj kvs) \<Rightarrow> list_all (\<lambda>kv. zod_accepts uuid s (Some (snd kv))) kvs
      | _ \<Rightarrow> False)"
| "zod_accepts uuid (ZObject fs) input =
     (case input of Some (JObj kvs) \<Rightarrow> zod_accepts_fields uuid fs kvs | _ \<Rightarrow> False)"
| "zod_accepts uuid (ZNullable s) input =
     (case input of Some JNull \<Rightarrow> True | _ \<Rightarrow> zod_accepts uuid s input)"
| "zod_accepts uuid (ZOptional s) input =
     (case input of None \<Rightarrow> True | _ \<Rightarrow> zod_accepts uuid s input)"
| "zod_accepts_fields uuid [] kvs = True"
| "zod_accepts_fields uuid (f # fs) kvs =
     (zod_accepts uuid (snd f) (map_of kvs (fst f)) \<and> zod_accepts_fields uuid fs kvs)"

definition ToolSearchMethodEnum :: zod where
  "ToolSearchMethodEnum = ZEnum [''NONE'', ''REGEX'', ''BM25'', ''EMBEDDINGS'']"

definition DeferLoadingBehaviorEnum :: zod where
  "DeferLoadingBehaviorEnum = ZEnum [''ENABLED'', ''DISABLED'', ''INHERIT'']"

definition BM25ConfigSchema :: zod where
  "BM25ConfigSchema =
     ZObject [(''k1'', ZOptional (ZNumber (Some 0) (Some 3) False)),
              (''b'', ZOptional (ZNumber (Some 0) (Some 1) False)),
              (''fields'', ZOptional (ZArray ZString))]"

definition EmbeddingsConfigSchema :: zod where
  "EmbeddingsConfigSchema =
     ZObject [(''model'', ZOptional ZString),
              (''similarity_threshold'', ZOptional (ZNumber (Some 0) (Some 1) False))]"

definition ToolSearchConfigUpsertInputSchema :: zod where
  "ToolSearchConfigUpsertInputSchema =
     ZObject [(''namespaceUuid'', ZStringUuid),
              (''maxResults'', ZNumber (Some 1) (Some 20) True),
              (''providerConfig'', ZOptional (ZNullable (ZRecord ZUnknown)))]"

definition GetToolSearchConfigRequestSchema :: zod where
  "GetToolSearchConfigRequestSchema = ZObject [(''namespaceUuid'', ZStringUuid)]"

definition UpsertToolSearchConfigRequestSchema :: zod where
  "UpsertToolSearchConfigRequestSchema = ToolSearchConfigUpsertInputSchema"

definition UpdateToolDeferLoadingRequestSchema :: zod where
  "UpdateToolDeferLoadingRequestSchema =
     ZObject [(''namespaceUuid'', ZStringUuid), (''toolUuid'', ZStringUuid),
              (''serverUuid'', ZStringUuid), (''deferLoading'', DeferLoadingBehaviorEnum)]"

text \<open>
  The \<open>upsert\<close> procedure of the router: the request is parsed with the input schema; when
  parsing fails the procedure answers with a bad-request error and the implementation
  is not called. On success the implementation gets the parsed object, which holds the
  three keys of the schema, each with the value the request gave it. The authentication
  that \<open>protectedProcedure\<close> adds is outside this file.
\<close>

datatype trpc_error = BAD_REQUEST

definition upsert_parsed :: "json \<Rightarrow> json" where
  "upsert_parsed input =
     (case input of
        JObj kvs \<Rightarrow>
          JObj (concat (map (\<lambda>k. case map_of kvs k of Some v \<Rightarrow> [(k, v)] | None \<Rightarrow> [])
                          [''namespaceUuid'', ''maxResults'', ''providerConfig'']))
      | _ \<Rightarrow> input)"

definition upsert_procedure ::
  "(string \<Rightarrow> bool) \<Rightarrow> (json \<Rightarrow> 'r) \<Rightarrow> json \<Rightarrow> trpc_error + 'r" where
  "upsert_procedure uuid implementation input =
     (if zod_accepts uuid UpsertToolSearchConfigRequestSchema (Some input)
      then Inr (implementation (upsert_parsed input))
      else Inl BAD_REQUEST)"

text \<open>
  The layout every version of the library's UUID test requires: 8-4-4-4-12 hexadecimal
  digits. It stands in for the test where an example needs a concrete one.
\<close>

definition is_hex_digit :: "char \<Rightarrow> bool" where
  "is_hex_digit c =
     ((48 \<le> code_unit c \<and> code_unit c \<le> 57) \<or>
      (65 \<le> code_unit c \<and> code_unit c \<le> 70) \<or>
      (97 \<le> code_unit c \<and> code_unit c \<le> 102))"

definition uuid_layout :: "string \<Rightarrow> bool" where
  "uuid_layout s =
     (length s = 36 \<and>
      list_all (\<lambda>i. if i \<in> {8, 13, 18, 23} then s ! i = CHR ''-'' else is_hex_digit (s ! i))
        [0..<36])"

section \<open>Defer-loading middleware (middleware/defer-loading.ts)\<close>

datatype DeferLoadingBehavior = INHERIT | ENABLED | DISABLED

text \<open>The type \<open>SearchMethod | "INHERIT"\<close> of an endpoint's search-method override.\<close>

datatype SearchMethodOverride = INHERIT_METHOD | Method SearchMethod

record NamespaceConfig =
  default_defer_loading :: bool
  default_search_method :: SearchMethod

text \<open>
  What a property holds when the program runs: nothing (\<open>undefined\<close>), \<open>null\<close>, or a value
  of its declared type. The interface \<open>EndpointConfig\<close> declares both overrides as enum
  values, but \<open>fetchAndCacheConfig\<close> fills them from a row of the table \<open>endpoints\<close>, whose
  columns \<open>override_defer_loading\<close> and \<open>override_search_method\<close> are nullable
  (drizzle/0013_smooth_killer_shrike.sql). The column \<open>override_search_method\<close> has no
  default and its enum has no \<open>INHERIT\<close>: a row that overrides no search method holds
  \<open>null\<close> there. \<open>resolveDeferLoadingConfig\<close> itself compares the property with \<open>undefined\<close>.
\<close>

datatype 'a js_value = Undefined | Null | Value 'a

record EndpointConfig =
  override_defer_loading :: "DeferLoadingBehavior js_value"
  override_search_method :: "SearchMethodOverride js_value"

text \<open>
  \<open>ToolOverrides = Record<string, boolean>\<close>: a plain object, given by its own properties,
  a finite map from tool names.
\<close>

type_synonym ToolOverrides = "string \<rightharpoonup> bool"

text \<open>
  Reading \<open>overrides[name]\<close>. Every \<open>ToolOverrides\<close> object of the code is made by an object
  literal (\<open>{}\<close> in \<open>getFailSafeConfig\<close> and in \<open>findToolDeferLoadingOverrides\<close>), so its
  prototype is \<open>Object.prototype\<close>. A name for which the object has no property of its own
  is looked up there, and the read gives \<open>undefined\<close> only if \<open>Object.prototype\<close> has no
  member of that name either. What is found there is a function, or for \<open>__proto__\<close> the
  prototype object: a value that is neither \<open>undefined\<close> nor a boolean.
\<close>

definition Object_prototype_names :: "string list" where
  "Object_prototype_names =
     [''constructor'', ''hasOwnProperty'', ''isPrototypeOf'', ''propertyIsEnumerable'',
      ''toLocaleString'', ''toString'', ''valueOf'', ''__proto__'',
      ''__defineGetter__'', ''__defineSetter__'', ''__lookupGetter__'', ''__lookupSetter__'']"

datatype override_read = NotFound | Own bool | Inherited

definition read_override :: "ToolOverrides \<Rightarrow> string \<Rightarrow> override_read" where
  "read_override overrides n =
     (case overrides n of
        Some v \<Rightarrow> Own v
      | None \<Rightarrow> if n \<in> set Object_prototype_names then Inherited else NotFound)"

text \<open>
  The resolved configuration. The interface declares \<open>searchMethod\<close> a \<open>SearchMethod\<close>; the
  resolver stores there what the endpoint's property holds, which can be \<open>null\<close>.
\<close>

record ResolvedDeferLoadingConfig =
  deferLoadingEnabled :: bool
  searchMethod :: "SearchMethod js_value"
  toolOverrides :: ToolOverrides

text \<open>
  The search method is the endpoint's property unless that is \<open>"INHERIT"\<close> or \<open>undefined\<close>,
  the two values the code compares it with.
\<close>

definition resolveDeferLoadingConfig ::
  "NamespaceConfig \<Rightarrow> EndpointConfig \<Rightarrow> ToolOverrides \<Rightarrow> ResolvedDeferLoadingConfig" where
  "resolveDeferLoadingConfig namespace endpoint overrides =
     \<lparr> deferLoadingEnabled =
         (if override_defer_loading endpoint = Value ENABLED then True
          else if override_defer_loading endpoint = Value DISABLED then False
          else default_defer_loading namespace),
       searchMethod =
         (case override_search_method endpoint of
            Value INHERIT_METHOD \<Rightarrow> Value (default_search_method namespace)
          | Undefined \<Rightarrow> Value (default_search_method namespace)
          | Value (Method m) \<Rightarrow> Value m
          | Null \<Rightarrow> Null),
       toolOverrides = overrides \<rparr>"

definition getFailSafeConfig :: ResolvedDeferLoadingConfig where
  "getFailSafeConfig =
     \<lparr> deferLoadingEnabled = False, searchMethod = Value NONE, toolOverrides = Map.empty \<rparr>"

text \<open>
  The three repositories are outside the subsystem. A read either throws (\<open>Inl\<close>) or
  returns; \<open>findByUuid\<close> returns \<open>None\<close> for a row that does not exist. Of an endpoint row
  only the two override columns are read, so the row is given as an \<open>EndpointConfig\<close>.
\<close>

datatype db_error = DbError string

record repositories =
  namespaces_findByUuid :: "string \<Rightarrow> db_error + NamespaceConfig option"
  endpoints_findByUuid :: "string \<Rightarrow> db_error + EndpointConfig option"
  findToolDeferLoadingOverrides :: "string \<Rightarrow> db_error + ToolOverrides"

text \<open>
  The middleware object's state is its \<open>configCache\<close>, keyed by endpoint UUID. Calls are
  modelled one after another, so \<open>pendingFetches\<close>, which a call fills and empties again
  before it returns, is empty whenever a call starts and is left out.
\<close>

record middleware_state =
  configCache :: "string \<rightharpoonup> ResolvedDeferLoadingConfig"

text \<open>
  The endpoint-to-resolver step of \<open>fetchAndCacheConfig\<close>: an endpoint that was not found
  is resolved as one that inherits everything.
\<close>

definition endpointOrInherit :: "EndpointConfig option \<Rightarrow> EndpointConfig" where
  "endpointOrInherit endpoint =
     (case endpoint of
        Some e \<Rightarrow> \<lparr> override_defer_loading = override_defer_loading e,
                    override_search_method = override_search_method e \<rparr>
      | None \<Rightarrow> \<lparr> override_defer_loading = Value INHERIT,
                  override_search_method = Value INHERIT_METHOD \<rparr>)"

definition fetchAndCacheConfig ::
  "repositories \<Rightarrow> string \<Rightarrow> string \<Rightarrow> middleware_state
     \<Rightarrow> ResolvedDeferLoadingConfig \<times> middleware_state" where
  "fetchAndCacheConfig repos namespaceUuid endpointUuid s =
     (case namespaces_findByUuid repos namespaceUuid of
        Inl e \<Rightarrow> (getFailSafeConfig, s)
      | Inr None \<Rightarrow> (getFailSafeConfig, s)
      | Inr (Some namespace) \<Rightarrow>
          (case endpoints_findByUuid repos endpointUuid of
             Inl e \<Rightarrow> (getFailSafeConfig, s)
           | Inr endpoint \<Rightarrow>
               (case findToolDeferLoadingOverrides repos namespaceUuid of
                  Inl e \<Rightarrow> (getFailSafeConfig, s)
                | Inr overrides \<Rightarrow>
                    (let resolved =
                           resolveDeferLoadingConfig
                             \<lparr> default_defer_loading = default_defer_loading namespace,
                               default_search_method = default_search_method namespace \<rparr>
                             (endpointOrInherit endpoint) overrides
                     in (resolved,
                         s\<lparr> configCache := (configCache s)(endpointUuid \<mapsto> resolved) \<rparr>)))))"

definition getResolvedConfig ::
  "repositories \<Rightarrow> string \<Rightarrow> string \<Rightarrow> middleware_state
     \<Rightarrow> ResolvedDeferLoadingConfig \<times> middleware_state" where
  "getResolvedConfig repos namespaceUuid endpointUuid s =
     (case configCache s endpointUuid of
        Some cached \<Rightarrow> (cached, s)
      | None \<Rightarrow> fetchAndCacheConfig repos namespaceUuid endpointUuid s)"

text \<open>
  The callback that \<open>applyDeferLoading\<close> maps over the tools either returns its argument
  (\<open>Same\<close>: the very object it was given) or a new object built by the spread
  \<open>{ ...tool, defer_loading: true }\<close> (\<open>Fresh\<close>). Whatever \<open>overrides[name]\<close> gives other than
  \<open>undefined\<close> takes the branch of the override, and there only \<open>true\<close> flags the tool.
\<close>

datatype returned = Same | Fresh Tool

definition applyDeferLoading_callback :: "ResolvedDeferLoadingConfig \<Rightarrow> Tool \<Rightarrow> returned" where
  "applyDeferLoading_callback config t =
     (if name t = TOOL_SEARCH_TOOL_NAME then Same
      else case read_override (toolOverrides config) (name t) of
             Own override \<Rightarrow>
               (if override = True then Fresh (t\<lparr> defer_loading := Some True \<rparr>) else Same)
           | Inherited \<Rightarrow> Same
           | NotFound \<Rightarrow>
               (if deferLoadingEnabled config then Fresh (t\<lparr> defer_loading := Some True \<rparr>)
                else Same))"

text \<open>The tool a callback result stands for, read as a value.\<close>

definition applyDeferLoading_tool :: "ResolvedDeferLoadingConfig \<Rightarrow> Tool \<Rightarrow> Tool" where
  "applyDeferLoading_tool config t =
     (case applyDeferLoading_callback config t of Same \<Rightarrow> t | Fresh t' \<Rightarrow> t')"

definition applyDeferLoading :: "Tool list \<Rightarrow> ResolvedDeferLoadingConfig \<Rightarrow> Tool list" where
  "applyDeferLoading tools config = map (applyDeferLoading_tool config) tools"

text \<open>
  The same function over an explicit store, to tell an object that is returned as it is
  from a copy. The store is the list of the tool objects allocated so far, a reference is
  an index into it, and the only store operation the function performs is the allocation
  of a new object at the end; it has no assignment to an existing object.
\<close>

definition alloc :: "Tool \<Rightarrow> Tool list \<Rightarrow> nat \<times> Tool list" where
  "alloc t h = (length h, h @ [t])"

fun applyDeferLoading_refs ::
  "nat list \<Rightarrow> ResolvedDeferLoadingConfig \<Rightarrow> Tool list \<Rightarrow> nat list \<times> Tool list" where
  "applyDeferLoading_refs [] config h = ([], h)"
| "applyDeferLoading_refs (r # rs) config h =
     (case (case applyDeferLoading_callback config (h ! r) of
              Same \<Rightarrow> (r, h)
            | Fresh t' \<Rightarrow> alloc t' h) of
        (r', h1) \<Rightarrow>
          (case applyDeferLoading_refs rs config h1 of
             (rs', h2) \<Rightarrow> (r' # rs', h2)))"

text \<open>
  Reading a property of a resolved configuration object, by its name. The interface
  \<open>ResolvedDeferLoadingConfig\<close> of this file declares the three properties below, and
  the object literals of \<open>resolveDeferLoadingConfig\<close> and \<open>getFailSafeConfig\<close> set exactly
  these; reading \<open>maxResults\<close> or \<open>providerConfig\<close> from such an object gives \<open>undefined\<close>
  (\<open>None\<close>). \<open>property_value\<close> holds the values a property is compared with.
\<close>

datatype property_value =
    PBool bool
  | PMethod SearchMethod
  | POverrides ToolOverrides
  | PNumber nat
  | PNull

definition config_property :: "ResolvedDeferLoadingConfig \<Rightarrow> string \<Rightarrow> property_value option" where
  "config_property c p =
     (if p = ''deferLoadingEnabled'' then Some (PBool (deferLoadingEnabled c))
      else if p = ''searchMethod''
           then (case searchMethod c of
                   Value m \<Rightarrow> Some (PMethod m)
                 | Null \<Rightarrow> Some PNull
                 | Undefined \<Rightarrow> None)
      else if p = ''toolOverrides'' then Some (POverrides (toolOverrides c))
      else None)"

text \<open>
  A fetch fails when the namespace read throws or finds nothing, or when a later read
  throws.
\<close>

definition fetch_fails :: "repositories \<Rightarrow> string \<Rightarrow> string \<Rightarrow> bool" where
  "fetch_fails repos namespaceUuid endpointUuid =
     (case namespaces_findByUuid repos namespaceUuid of
        Inl e \<Rightarrow> True
      | Inr None \<Rightarrow> True
      | Inr (Some namespace) \<Rightarrow>
          isl (endpoints_findByUuid repos endpointUuid) \<or>
          isl (findToolDeferLoadingOverrides repos namespaceUuid))"

subsection \<open>Example inputs for the middleware\<close>

definition example_tools :: "Tool list" where
  "example_tools =
     [\<lparr> name = ''metamcp_search_tools'', description = None, inputSchema = None,
        defer_loading = None \<rparr>,
      \<lparr> name = ''fs__read_file'', description = Some ''Read a file'', inputSchema = None,
        defer_loading = None \<rparr>,
      \<lparr> name = ''fs__write_file'', description = Some ''Write a file'', inputSchema = None,
        defer_loading = None \<rparr>]"

definition example_config :: ResolvedDeferLoadingConfig where
  "example_config =
     \<lparr> deferLoadingEnabled = True, searchMethod = Value BM25,
       toolOverrides = [''fs__read_file'' \<mapsto> False] \<rparr>"

text \<open>
  A tool whose name is that of a member of \<open>Object.prototype\<close>, and a configuration that
  defers every tool and has no per-tool override.
\<close>

definition constructor_tool :: Tool where
  "constructor_tool =
     \<lparr> name = ''constructor'', description = Some ''Create an object'',
       inputSchema = Some (JObj [(''type'', JStr ''object''), (''properties'', JObj [])]),
       defer_loading = None \<rparr>"

definition defer_all_config :: ResolvedDeferLoadingConfig where
  "defer_all_config =
     \<lparr> deferLoadingEnabled = True, searchMethod = Value BM25, toolOverrides = Map.empty \<rparr>"

definition failing_repositories :: repositories where
  "failing_repositories =
     \<lparr> namespaces_findByUuid = (\<lambda>u. Inl (DbError ''Database connection failed'')),
       endpoints_findByUuid = (\<lambda>u. Inr None),
       findToolDeferLoadingOverrides = (\<lambda>u. Inr Map.empty) \<rparr>"

definition recovered_repositories :: repositories where
  "recovered_repositories =
     \<lparr> namespaces_findByUuid =
         (\<lambda>u. Inr (Some \<lparr> default_defer_loading = True, default_search_method = BM25 \<rparr>)),
       endpoints_findByUuid = (\<lambda>u. Inr None),
       findToolDeferLoadingOverrides = (\<lambda>u. Inr Map.empty) \<rparr>"

text \<open>
  An endpoint row as the table has it when no override was ever set: \<open>override_defer_loading\<close>
  is the column default \<open>INHERIT\<close> and \<open>override_search_method\<close> is \<open>null\<close>.
\<close>

definition unset_endpoint :: EndpointConfig where
  "unset_endpoint =
     \<lparr> override_defer_loading = Value INHERIT, override_search_method = Null \<rparr>"

definition bm25_namespace :: NamespaceConfig where
  "bm25_namespace = \<lparr> default_defer_loading = False, default_search_method = BM25 \<rparr>"

definition unset_endpoint_repositories :: repositories where
  "unset_endpoint_repositories =
     \<lparr> namespaces_findByUuid = (\<lambda>u. Inr (Some bm25_namespace)),
       endpoints_findByUuid = (\<lambda>u. Inr (Some unset_endpoint)),
       findToolDeferLoadingOverrides = (\<lambda>u. Inr Map.empty) \<rparr>"

section \<open>The tokenizer of the specification\<close>

text \<open>
  The tokenizer as the specification words it: lower-case, split on the maximal runs of
  characters outside \<open>[A-Za-z0-9]\<close>, drop the empty tokens.
\<close>

definition spec_tokenize :: "string \<Rightarrow> string list" where
  "spec_tokenize text =
     filter (\<lambda>token. token \<noteq> [])
       (js_split_runs (\<lambda>c. \<not> is_alnum_char c) [] (toLowerCase text))"

section \<open>The score formula of the specification\<close>

text \<open>
  The score as the specification words it, in exact arithmetic: per field match the field
  weight, the position bonus and the length bonus; the sum over the matches, clamped to
  the interval from 0 to 1.
\<close>

definition spec_match_score :: "RegexMatch \<Rightarrow> real" where
  "spec_match_score m =
     (if match_field m = ''name'' then 0.6 else 0.3) +
     max 0.05 (0.20 - 0.003 * real (match_index m)) +
     min 0.20 (0.02 * real (match_length m))"

definition spec_score :: "RegexMatch list \<Rightarrow> real" where
  "spec_score matches = max 0 (min 1 (\<Sum>m\<leftarrow>matches. spec_match_score m))"

section \<open>Example inputs for the search code, the dispatcher and the router\<close>

definition read_file_tool :: ToolWithServer where
  "read_file_tool =
     \<lparr> tool = \<lparr> name = ''filesystem__read_file'', description = Some ''Read a file'',
                inputSchema = None, defer_loading = None \<rparr>,
       serverUuid = ''server-1'' \<rparr>"

definition write_file_tool :: ToolWithServer where
  "write_file_tool =
     \<lparr> tool = \<lparr> name = ''filesystem__write_file'', description = Some ''Write a file'',
                inputSchema = None, defer_loading = None \<rparr>,
       serverUuid = ''server-1'' \<rparr>"

definition fetch_url_tool :: ToolWithServer where
  "fetch_url_tool =
     \<lparr> tool = \<lparr> name = ''web__fetch_url'', description = Some ''Fetch URL'',
                inputSchema = None, defer_loading = None \<rparr>,
       serverUuid = ''server-2'' \<rparr>"

definition fetch_query :: ToolSearchQuery where
  "fetch_query = \<lparr> query = ''fetch_'', maxResults = None \<rparr>"

definition fetch_regex :: regexp where
  "fetch_regex =
     (\<lambda>text. map_option (\<lambda>i. (i, length ''FETCH_''))
               (find_from 0 ''FETCH_'' (map canonicalize_char text)))"

definition blank_query :: ToolSearchQuery where
  "blank_query = \<lparr> query = ''  '', maxResults = Some 2 \<rparr>"

definition zzz_config :: RegexSearchConfig where
  "zzz_config =
     \<lparr> pattern = Some ''zzz'', caseInsensitive = Some True,
       config_fields = Some [''name'', ''description''] \<rparr>"

text \<open>
  For the dispatcher: a proxy that counts its calls in the world, a validator library
  that accepts every value, and a stand-in for \<open>JSON.stringify\<close>.
\<close>

definition counting_proxy :: "string \<Rightarrow> json \<Rightarrow> nat \<Rightarrow> (string + CallToolResult) \<times> nat" where
  "counting_proxy n a w = (Inr \<lparr> content = [TextContent ''ok''], isError = None \<rparr>, Suc w)"

definition accepting_ajv :: ajv where
  "accepting_ajv schema = Inr (\<lambda>v. (True, None))"

definition no_stringify :: "json option \<Rightarrow> string" where
  "no_stringify schema = ''{}''"

definition search_tools_entry :: ToolWithServer where
  "search_tools_entry =
     \<lparr> tool = \<lparr> name = ''metamcp_search_tools'', description = None, inputSchema = None,
                defer_loading = None \<rparr>,
       serverUuid = ''builtin'' \<rparr>"

text \<open>For the router: a request whose BM25 parameters are out of range.\<close>

definition example_uuid :: string where
  "example_uuid = ''123e4567-e89b-42d3-a456-426614174000''"

definition out_of_range_request :: json where
  "out_of_range_request =
     JObj [(''namespaceUuid'', JStr example_uuid),
           (''maxResults'', JNum 5),
           (''providerConfig'', JObj [(''k1'', JNum 5), (''b'', JNum 2)])]"

section \<open>Properties of the middleware\<close>

lemma applyDeferLoading_callback_cases:
  "applyDeferLoading_callback config t = Same \<or>
   applyDeferLoading_callback config t = Fresh (t\<lparr> defer_loading := Some True \<rparr>)"
  by (simp add: applyDeferLoading_callback_def split: override_read.splits)

lemma applyDeferLoading_tool_name [simp]:
  "name (applyDeferLoading_tool config t) = name t"
  by (simp add: applyDeferLoading_tool_def applyDeferLoading_callback_def
      split: override_read.splits)

lemma applyDeferLoading_tool_idem:
  "applyDeferLoading_tool config (applyDeferLoading_tool config t) =
   applyDeferLoading_tool config t"
  by (simp add: applyDeferLoading_tool_def applyDeferLoading_callback_def
      split: override_read.splits)

text \<open>
  C10. Applying the flag-application step to its own output, with the same resolved
  configuration, gives that output again.
\<close>

theorem applyDeferLoading_idempotent:
  "applyDeferLoading (applyDeferLoading tools config) config = applyDeferLoading tools config"
  by (simp add: applyDeferLoading_def applyDeferLoading_tool_idem)

text \<open>
  The resolver, case by case. \<open>deferLoadingEnabled\<close> is taken from the endpoint override
  when that is ENABLED or DISABLED, and from the namespace default otherwise.
  \<open>searchMethod\<close> is the namespace default when the endpoint override is INHERIT or
  \<open>undefined\<close>, the override when that is a search method, and \<open>null\<close> when the override is
  \<open>null\<close>. When the endpoint is absent, \<open>fetchAndCacheConfig\<close> resolves with both overrides
  INHERIT, so both values are the namespace defaults; when it is present, its row is
  resolved as it is.
\<close>

lemma resolveDeferLoadingConfig_cases:
  "deferLoadingEnabled (resolveDeferLoadingConfig namespace endpoint overrides) =
     (if override_defer_loading endpoint = Value ENABLED then True
      else if override_defer_loading endpoint = Value DISABLED then False
      else default_defer_loading namespace) \<and>
   searchMethod (resolveDeferLoadingConfig namespace endpoint overrides) =
     (case override_search_method endpoint of
        Value (Method m) \<Rightarrow> Value m
      | Value INHERIT_METHOD \<Rightarrow> Value (default_search_method namespace)
      | Undefined \<Rightarrow> Value (default_search_method namespace)
      | Null \<Rightarrow> Null) \<and>
   fst (fetchAndCacheConfig
          \<lparr> namespaces_findByUuid = (\<lambda>u. Inr (Some namespace)),
            endpoints_findByUuid = (\<lambda>u. Inr None),
            findToolDeferLoadingOverrides = (\<lambda>u. Inr overrides) \<rparr>
          namespaceUuid endpointUuid s) =
     \<lparr> deferLoadingEnabled = default_defer_loading namespace,
       searchMethod = Value (default_search_method namespace),
       toolOverrides = overrides \<rparr> \<and>
   fst (fetchAndCacheConfig
          \<lparr> namespaces_findByUuid = (\<lambda>u. Inr (Some namespace)),
            endpoints_findByUuid = (\<lambda>u. Inr (Some endpoint)),
            findToolDeferLoadingOverrides = (\<lambda>u. Inr overrides) \<rparr>
          namespaceUuid endpointUuid s) =
     resolveDeferLoadingConfig namespace endpoint overrides"
  by (simp add: resolveDeferLoadingConfig_def fetchAndCacheConfig_def endpointOrInherit_def
      Let_def split: js_value.splits SearchMethodOverride.splits)

text \<open>
  C3. The specification gives an endpoint whose search-method override is unset the
  namespace's default search method. An endpoint row in which no search method was ever
  set holds \<open>null\<close> in \<open>override_search_method\<close>; the resolver tests the property against
  \<open>"INHERIT"\<close> and \<open>undefined\<close> only, so \<open>null\<close> passes as an override. With the namespace
  default BM25 and such a row, \<open>fetchAndCacheConfig\<close> resolves, and caches, a
  configuration whose \<open>searchMethod\<close> is \<open>null\<close>: neither the namespace default nor a search
  method. \<open>deferLoadingEnabled\<close> is the namespace default, as specified.
\<close>

theorem resolveDeferLoadingConfig_null_override:
  "fetchAndCacheConfig unset_endpoint_repositories ''namespace-1'' ''endpoint-1''
     \<lparr> configCache = Map.empty \<rparr> =
     (\<lparr> deferLoadingEnabled = False, searchMethod = Null, toolOverrides = Map.empty \<rparr>,
      \<lparr> configCache =
          [''endpoint-1'' \<mapsto>
             \<lparr> deferLoadingEnabled = False, searchMethod = Null,
               toolOverrides = Map.empty \<rparr>] \<rparr>) \<and>
   searchMethod (resolveDeferLoadingConfig bm25_namespace unset_endpoint Map.empty) = Null \<and>
   searchMethod (resolveDeferLoadingConfig bm25_namespace unset_endpoint Map.empty) \<noteq>
     Value (default_search_method bm25_namespace)"
  by (simp add: fetchAndCacheConfig_def unset_endpoint_repositories_def unset_endpoint_def
      bm25_namespace_def resolveDeferLoadingConfig_def endpointOrInherit_def Let_def)

lemma alloc_simps [simp]:
  "fst (alloc t h) = length h" "snd (alloc t h) = h @ [t]"
  by (simp_all add: alloc_def)

lemma applyDeferLoading_refs_store:
  "applyDeferLoading_refs refs config h = (refs', h') \<Longrightarrow> \<exists>new. h' = h @ new"
proof (induction refs arbitrary: h refs' h')
  case Nil
  then show ?case by simp
next
  case (Cons r rs)
  obtain r1 h1 where step:
    "(case applyDeferLoading_callback config (h ! r) of Same \<Rightarrow> (r, h) | Fresh t' \<Rightarrow> alloc t' h) = (r1, h1)"
    by (cases "case applyDeferLoading_callback config (h ! r) of Same \<Rightarrow> (r, h) | Fresh t' \<Rightarrow> alloc t' h")
  obtain rs2 h2 where rest: "applyDeferLoading_refs rs config h1 = (rs2, h2)"
    by (cases "applyDeferLoading_refs rs config h1")
  from step have "\<exists>new. h1 = h @ new"
    by (auto simp: alloc_def split: returned.splits)
  moreover from Cons.IH [OF rest] have "\<exists>new. h2 = h1 @ new" .
  moreover from Cons.prems step rest have "h' = h2" by simp
  ultimately show ?case by auto
qed

lemma applyDeferLoading_refs_rel:
  "\<forall>r\<in>set refs. r < length h \<Longrightarrow>
   applyDeferLoading_refs refs config h = (refs', h') \<Longrightarrow>
   list_all2
     (\<lambda>r r'. case applyDeferLoading_callback config (h ! r) of
                Same \<Rightarrow> r' = r
              | Fresh t' \<Rightarrow> length h \<le> r' \<and> r' < length h' \<and> h' ! r' = t')
     refs refs'"
proof (induction refs arbitrary: h refs' h')
  case Nil
  then show ?case by simp
next
  case (Cons r rs)
  let ?first = "case applyDeferLoading_callback config (h ! r) of Same \<Rightarrow> (r, h) | Fresh t' \<Rightarrow> alloc t' h"
  obtain r1 h1 where step: "?first = (r1, h1)"
    by (cases ?first)
  obtain rs2 h2 where rest: "applyDeferLoading_refs rs config h1 = (rs2, h2)"
    by (cases "applyDeferLoading_refs rs config h1")
  from Cons.prems(2) step rest have out: "refs' = r1 # rs2" "h' = h2" by simp_all
  from step obtain new1 where h1: "h1 = h @ new1"
    by (auto simp: alloc_def split: returned.splits)
  from applyDeferLoading_refs_store [OF rest] obtain new2 where h2: "h2 = h1 @ new2" ..
  have valid1: "\<forall>r\<in>set rs. r < length h1"
    using Cons.prems(1) h1 by auto
  have tail: "list_all2
     (\<lambda>r r'. case applyDeferLoading_callback config (h1 ! r) of
                Same \<Rightarrow> r' = r
              | Fresh t' \<Rightarrow> length h1 \<le> r' \<and> r' < length h2 \<and> h2 ! r' = t')
     rs rs2"
    by (rule Cons.IH [OF valid1 rest])
  have tail': "list_all2
     (\<lambda>r r'. case applyDeferLoading_callback config (h ! r) of
                Same \<Rightarrow> r' = r
              | Fresh t' \<Rightarrow> length h \<le> r' \<and> r' < length h2 \<and> h2 ! r' = t')
     rs rs2"
    using tail
  proof (rule list.rel_mono_strong)
    fix x y
    assume x: "x \<in> set rs" and y: "y \<in> set rs2"
      and xy: "case applyDeferLoading_callback config (h1 ! x) of
                Same \<Rightarrow> y = x
              | Fresh t' \<Rightarrow> length h1 \<le> y \<and> y < length h2 \<and> h2 ! y = t'"
    from x Cons.prems(1) have "x < length h" by simp
    then have "h1 ! x = h ! x" by (simp add: h1 nth_append)
    with xy show "case applyDeferLoading_callback config (h ! x) of
                Same \<Rightarrow> y = x
              | Fresh t' \<Rightarrow> length h \<le> y \<and> y < length h2 \<and> h2 ! y = t'"
      by (auto simp: h1 split: returned.splits)
  qed
  have head: "case applyDeferLoading_callback config (h ! r) of
                Same \<Rightarrow> r1 = r
              | Fresh t' \<Rightarrow> length h \<le> r1 \<and> r1 < length h2 \<and> h2 ! r1 = t'"
    using step h2 by (auto simp: alloc_def nth_append split: returned.splits)
  show ?case unfolding out using head tail' by simp
qed


text \<open>
  The flag-application step, run over a store in which every input reference is valid,
  returns a list of the same length and leaves every object that was in the store as it
  was (the old store is a prefix of the new one). Position by position: the built-in
  search tool is returned as the same object; so is a tool whose per-tool override is
  false; a tool (other than the search tool) whose override is true is returned as a
  newly allocated copy with \<open>defer_loading = true\<close>; a tool for whose name the read of the
  overrides finds an inherited member is returned as the same object; a tool for whose
  name the read finds nothing is such a copy when \<open>deferLoadingEnabled\<close> holds and the same
  object when it does not. Read as values, the result is \<open>applyDeferLoading\<close> of the input
  list.
\<close>

lemma applyDeferLoading_store:
  assumes valid: "\<forall>r\<in>set refs. r < length h"
    and run: "applyDeferLoading_refs refs config h = (refs', h')"
  shows "length refs' = length refs \<and>
         take (length h) h' = h \<and>
         map (\<lambda>r. h' ! r) refs' = applyDeferLoading (map (\<lambda>r. h ! r) refs) config \<and>
         (\<forall>i<length refs.
            (name (h ! (refs ! i)) = TOOL_SEARCH_TOOL_NAME \<longrightarrow> refs' ! i = refs ! i) \<and>
            (read_override (toolOverrides config) (name (h ! (refs ! i))) = Own False \<longrightarrow>
               refs' ! i = refs ! i) \<and>
            (name (h ! (refs ! i)) \<noteq> TOOL_SEARCH_TOOL_NAME \<and>
             read_override (toolOverrides config) (name (h ! (refs ! i))) = Own True \<longrightarrow>
               length h \<le> refs' ! i \<and> refs' ! i < length h' \<and>
               h' ! (refs' ! i) = (h ! (refs ! i))\<lparr> defer_loading := Some True \<rparr>) \<and>
            (read_override (toolOverrides config) (name (h ! (refs ! i))) = Inherited \<longrightarrow>
               refs' ! i = refs ! i) \<and>
            (name (h ! (refs ! i)) \<noteq> TOOL_SEARCH_TOOL_NAME \<and>
             read_override (toolOverrides config) (name (h ! (refs ! i))) = NotFound \<and>
             deferLoadingEnabled config \<longrightarrow>
               length h \<le> refs' ! i \<and> refs' ! i < length h' \<and>
               h' ! (refs' ! i) = (h ! (refs ! i))\<lparr> defer_loading := Some True \<rparr>) \<and>
            (read_override (toolOverrides config) (name (h ! (refs ! i))) = NotFound \<and>
             \<not> deferLoadingEnabled config \<longrightarrow>
               refs' ! i = refs ! i))"
proof -
  let ?R = "\<lambda>r r'. case applyDeferLoading_callback config (h ! r) of
                Same \<Rightarrow> r' = r
              | Fresh t' \<Rightarrow> length h \<le> r' \<and> r' < length h' \<and> h' ! r' = t'"
  have rel: "list_all2 ?R refs refs'"
    by (rule applyDeferLoading_refs_rel [OF valid run])
  then have len: "length refs' = length refs"
    by (simp add: list_all2_lengthD)
  from applyDeferLoading_refs_store [OF run] obtain new where store: "h' = h @ new" ..
  then have keep: "take (length h) h' = h" by simp
  have at: "?R (refs ! i) (refs' ! i)" if "i < length refs" for i
    using rel that by (rule list_all2_nthD)
  have read: "map (\<lambda>r. h' ! r) refs' = applyDeferLoading (map (\<lambda>r. h ! r) refs) config"
  proof (rule nth_equalityI)
    show "length (map (\<lambda>r. h' ! r) refs') =
          length (applyDeferLoading (map (\<lambda>r. h ! r) refs) config)"
      by (simp add: len applyDeferLoading_def)
  next
    fix i
    assume "i < length (map (\<lambda>r. h' ! r) refs')"
    then have i: "i < length refs" by (simp add: len)
    then have "refs ! i < length h" using valid by simp
    then have "h' ! (refs ! i) = h ! (refs ! i)" by (simp add: store nth_append)
    with at [OF i] i show "map (\<lambda>r. h' ! r) refs' ! i =
          applyDeferLoading (map (\<lambda>r. h ! r) refs) config ! i"
      by (auto simp: len applyDeferLoading_def applyDeferLoading_tool_def split: returned.splits)
  qed
  have cases: "(name (h ! (refs ! i)) = TOOL_SEARCH_TOOL_NAME \<longrightarrow> refs' ! i = refs ! i) \<and>
            (read_override (toolOverrides config) (name (h ! (refs ! i))) = Own False \<longrightarrow>
               refs' ! i = refs ! i) \<and>
            (name (h ! (refs ! i)) \<noteq> TOOL_SEARCH_TOOL_NAME \<and>
             read_override (toolOverrides config) (name (h ! (refs ! i))) = Own True \<longrightarrow>
               length h \<le> refs' ! i \<and> refs' ! i < length h' \<and>
               h' ! (refs' ! i) = (h ! (refs ! i))\<lparr> defer_loading := Some True \<rparr>) \<and>
            (read_override (toolOverrides config) (name (h ! (refs ! i))) = Inherited \<longrightarrow>
               refs' ! i = refs ! i) \<and>
            (name (h ! (refs ! i)) \<noteq> TOOL_SEARCH_TOOL_NAME \<and>
             read_override (toolOverrides config) (name (h ! (refs ! i))) = NotFound \<and>
             deferLoadingEnabled config \<longrightarrow>
               length h \<le> refs' ! i \<and> refs' ! i < length h' \<and>
               h' ! (refs' ! i) = (h ! (refs ! i))\<lparr> defer_loading := Some True \<rparr>) \<and>
            (read_override (toolOverrides config) (name (h ! (refs ! i))) = NotFound \<and>
             \<not> deferLoadingEnabled config \<longrightarrow>
               refs' ! i = refs ! i)" if "i < length refs" for i
    using at [OF that]
    by (simp add: applyDeferLoading_callback_def split: if_splits override_read.splits)
  from len keep read cases show ?thesis by blast
qed

lemma example_run:
  "applyDeferLoading_refs [0, 1, 2] example_config example_tools =
     ([0, 1, 3],
      example_tools @
        [\<lparr> name = ''fs__write_file'', description = Some ''Write a file'', inputSchema = None,
           defer_loading = Some True \<rparr>])"
  by (simp add: example_tools_def example_config_def applyDeferLoading_callback_def
      read_override_def Object_prototype_names_def TOOL_SEARCH_TOOL_NAME_def alloc_def)

lemma applyDeferLoading_store_example:
  "applyDeferLoading_refs [0, 1, 2] example_config example_tools =
     ([0, 1, 3],
      example_tools @
        [\<lparr> name = ''fs__write_file'', description = Some ''Write a file'', inputSchema = None,
           defer_loading = Some True \<rparr>]) \<and>
   map (\<lambda>r. (example_tools @
        [\<lparr> name = ''fs__write_file'', description = Some ''Write a file'', inputSchema = None,
           defer_loading = Some True \<rparr>]) ! r) [0, 1, 3] =
     applyDeferLoading (map (\<lambda>r. example_tools ! r) [0, 1, 2]) example_config"
proof -
  have valid: "\<forall>r\<in>set [0, 1, 2]. r < length example_tools"
    by (simp add: example_tools_def)
  from applyDeferLoading_store [OF valid example_run] example_run show ?thesis
    by blast
qed

text \<open>
  C2. The specification has a tool without a per-tool override flagged exactly when
  \<open>deferLoadingEnabled\<close> holds. The code decides whether there is an override by reading
  \<open>config.toolOverrides[tool.name]\<close> and comparing with \<open>undefined\<close>, and for a tool named
  \<open>constructor\<close> that read finds the member every plain object inherits. With
  \<open>deferLoadingEnabled\<close> true and no override at all, the tool is therefore returned as the
  same object, without \<open>defer_loading\<close>, where the specification has a copy with
  \<open>defer_loading = true\<close>.
\<close>

theorem applyDeferLoading_inherited_name:
  "deferLoadingEnabled defer_all_config \<and>
   toolOverrides defer_all_config (name constructor_tool) = None \<and>
   name constructor_tool \<noteq> TOOL_SEARCH_TOOL_NAME \<and>
   applyDeferLoading_refs [0] defer_all_config [constructor_tool] = ([0], [constructor_tool]) \<and>
   applyDeferLoading [constructor_tool] defer_all_config = [constructor_tool] \<and>
   defer_loading (hd (applyDeferLoading [constructor_tool] defer_all_config)) = None"
  by (simp add: defer_all_config_def constructor_tool_def applyDeferLoading_def
      applyDeferLoading_tool_def applyDeferLoading_callback_def read_override_def
      Object_prototype_names_def TOOL_SEARCH_TOOL_NAME_def)


text \<open>
  C9 (amended). On a cache miss, if the namespace read throws or finds no namespace, or
  a later read throws, \<open>getResolvedConfig\<close> returns the fail-safe configuration with
  \<open>deferLoadingEnabled = false\<close>, \<open>searchMethod = NONE\<close> and \<open>toolOverrides = {}\<close>, and leaves
  the cache as it was: the endpoint is still not cached, and the next call for it runs
  \<open>fetchAndCacheConfig\<close> again, against whatever the repositories then answer.
\<close>

theorem getResolvedConfig_failsafe:
  assumes miss: "configCache s endpointUuid = None"
    and fails: "fetch_fails repos namespaceUuid endpointUuid"
  shows "getResolvedConfig repos namespaceUuid endpointUuid s =
           (\<lparr> deferLoadingEnabled = False, searchMethod = Value NONE, toolOverrides = Map.empty \<rparr>, s) \<and>
         configCache (snd (getResolvedConfig repos namespaceUuid endpointUuid s)) endpointUuid
           = None \<and>
         (\<forall>repos'.
            getResolvedConfig repos' namespaceUuid endpointUuid
              (snd (getResolvedConfig repos namespaceUuid endpointUuid s)) =
            fetchAndCacheConfig repos' namespaceUuid endpointUuid s)"
proof -
  from fails have "fetchAndCacheConfig repos namespaceUuid endpointUuid s = (getFailSafeConfig, s)"
    by (auto simp: fetch_fails_def fetchAndCacheConfig_def isl_def
        split: sum.splits option.splits)
  with miss have first: "getResolvedConfig repos namespaceUuid endpointUuid s =
      (\<lparr> deferLoadingEnabled = False, searchMethod = Value NONE, toolOverrides = Map.empty \<rparr>, s)"
    by (simp add: getResolvedConfig_def getFailSafeConfig_def)
  from miss have "getResolvedConfig repos' namespaceUuid endpointUuid s =
      fetchAndCacheConfig repos' namespaceUuid endpointUuid s" for repos'
    by (simp add: getResolvedConfig_def)
  with first miss show ?thesis by simp
qed

theorem getResolvedConfig_failsafe_witness:
  "getResolvedConfig failing_repositories ''namespace-1'' ''endpoint-1''
     \<lparr> configCache = Map.empty \<rparr> =
     (\<lparr> deferLoadingEnabled = False, searchMethod = Value NONE, toolOverrides = Map.empty \<rparr>,
      \<lparr> configCache = Map.empty \<rparr>) \<and>
   fst (getResolvedConfig recovered_repositories ''namespace-1'' ''endpoint-1''
     (snd (getResolvedConfig failing_repositories ''namespace-1'' ''endpoint-1''
        \<lparr> configCache = Map.empty \<rparr>))) =
     \<lparr> deferLoadingEnabled = True, searchMethod = Value BM25, toolOverrides = Map.empty \<rparr>"
proof -
  have miss: "configCache \<lparr> configCache = Map.empty \<rparr> ''endpoint-1'' = None"
    by simp
  have fails: "fetch_fails failing_repositories ''namespace-1'' ''endpoint-1''"
    by (simp add: fetch_fails_def failing_repositories_def)
  have later: "fst (fetchAndCacheConfig recovered_repositories ''namespace-1'' ''endpoint-1''
          \<lparr> configCache = Map.empty \<rparr>) =
        \<lparr> deferLoadingEnabled = True, searchMethod = Value BM25, toolOverrides = Map.empty \<rparr>"
    by (simp add: fetchAndCacheConfig_def recovered_repositories_def
        resolveDeferLoadingConfig_def endpointOrInherit_def Let_def)
  note all = getResolvedConfig_failsafe [OF miss fails]
  from all have first:
    "getResolvedConfig failing_repositories ''namespace-1'' ''endpoint-1''
       \<lparr> configCache = Map.empty \<rparr> =
     (\<lparr> deferLoadingEnabled = False, searchMethod = Value NONE, toolOverrides = Map.empty \<rparr>,
      \<lparr> configCache = Map.empty \<rparr>)"
    by (rule conjunct1)
  from all have "\<forall>repos'.
       getResolvedConfig repos' ''namespace-1'' ''endpoint-1''
         (snd (getResolvedConfig failing_repositories ''namespace-1'' ''endpoint-1''
            \<lparr> configCache = Map.empty \<rparr>)) =
       fetchAndCacheConfig repos' ''namespace-1'' ''endpoint-1'' \<lparr> configCache = Map.empty \<rparr>"
    by (rule conjunct2 [THEN conjunct2])
  then have "getResolvedConfig recovered_repositories ''namespace-1'' ''endpoint-1''
       (snd (getResolvedConfig failing_repositories ''namespace-1'' ''endpoint-1''
          \<lparr> configCache = Map.empty \<rparr>)) =
     fetchAndCacheConfig recovered_repositories ''namespace-1'' ''endpoint-1''
       \<lparr> configCache = Map.empty \<rparr>"
    by (rule spec)
  with later have "fst (getResolvedConfig recovered_repositories ''namespace-1'' ''endpoint-1''
       (snd (getResolvedConfig failing_repositories ''namespace-1'' ''endpoint-1''
          \<lparr> configCache = Map.empty \<rparr>))) =
     \<lparr> deferLoadingEnabled = True, searchMethod = Value BM25, toolOverrides = Map.empty \<rparr>"
    by (simp only:)
  with first show ?thesis by (rule conjI)
qed

text \<open>
  C9 as stated gives the fail-safe configuration \<open>maxResults = 5\<close> and
  \<open>providerConfig = null\<close>. The object returned here has neither property.
\<close>

theorem getResolvedConfig_failsafe_counterexample:
  "\<not> (config_property
         (fst (getResolvedConfig failing_repositories ''namespace-1'' ''endpoint-1''
                 \<lparr> configCache = Map.empty \<rparr>)) ''maxResults'' = Some (PNumber 5) \<and>
       config_property
         (fst (getResolvedConfig failing_repositories ''namespace-1'' ''endpoint-1''
                 \<lparr> configCache = Map.empty \<rparr>)) ''providerConfig'' = Some PNull)"
  by (simp add: config_property_def)

section \<open>Properties of the search code\<close>

lemmas char_eval = code_unit_def toLowerCase_char_def toLowerCase_def is_word_char_def
  is_alnum_char_def is_js_space_def char_of_def bit_0 canonicalize_char_def

lemmas search_eval = regex_search_def build_regex_def fields_or_default_def regex_results_def
  searchTool_def regex_buildMatchReason_def unique_def
  escapeRegexLiteral_def regex_metachars_def literal_RegExp_def or_empty_def trim_def
  sort_by_score_def slice0_def maxResults_or_def default_regex_config_def
  neutral_result_def no_query_reason_def

lemma trim_blank:
  assumes "\<forall>c\<in>set s. is_js_space c"
  shows "trim s = []"
proof -
  from assms have none: "dropWhile is_js_space s = []"
    by (induction s) simp_all
  show ?thesis unfolding trim_def none by simp
qed

lemma slice0_nonneg: "0 \<le> n \<Longrightarrow> slice0 n xs = take (nat n) xs"
  by (simp add: slice0_def)

text \<open>
  C1 (amended). When the resolved method is NONE, \<open>search\<close> returns exactly one result
  per available tool, in the order of the pool, each with score 0.5 and the reason
  "Search disabled (method: NONE)". The result is as long as the pool, whatever
  \<open>maxResults\<close> is, and no provider is created.
\<close>

theorem service_search_NONE:
  assumes "ResolvedSearchConfig.searchMethod config = NONE"
  shows "service_search RegExp q availableTools config st =
           (Inr (map (\<lambda>a. \<lparr> tool = tool a, serverUuid = serverUuid a, score = 1 / 2,
                              matchReason = ''Search disabled (method: NONE)'' \<rparr>)
                   availableTools), st) \<and>
         (\<exists>results. fst (service_search RegExp q availableTools config st) = Inr results \<and>
                    length results = length availableTools)"
  using assms by (simp add: service_search_def search_disabled_reason_def)

theorem service_search_NONE_witness:
  "service_search literal_RegExp \<lparr> query = ''file'', maxResults = None \<rparr>
     [read_file_tool, write_file_tool]
     \<lparr> ResolvedSearchConfig.searchMethod = NONE, ResolvedSearchConfig.maxResults = 5,
       providerConfig = None \<rparr>
     \<lparr> providerCache = Map.empty \<rparr> =
   (Inr [\<lparr> tool = tool read_file_tool, serverUuid = ''server-1'', score = 1 / 2,
           matchReason = ''Search disabled (method: NONE)'' \<rparr>,
         \<lparr> tool = tool write_file_tool, serverUuid = ''server-1'', score = 1 / 2,
           matchReason = ''Search disabled (method: NONE)'' \<rparr>],
    \<lparr> providerCache = Map.empty \<rparr>)"
proof -
  have disabled: "ResolvedSearchConfig.searchMethod
      \<lparr> ResolvedSearchConfig.searchMethod = NONE, ResolvedSearchConfig.maxResults = 5,
       providerConfig = None \<rparr> = NONE"
    by simp
  from service_search_NONE [OF disabled] show ?thesis
    by (simp add: read_file_tool_def write_file_tool_def)
qed

text \<open>
  C1 as stated bounds the length of the result by \<open>maxResults\<close>. With two tools in the pool
  and \<open>maxResults = 1\<close> the result has two entries.
\<close>

theorem service_search_NONE_counterexample:
  "\<not> (\<forall>results.
        fst (service_search literal_RegExp \<lparr> query = ''file'', maxResults = None \<rparr>
               [read_file_tool, write_file_tool]
               \<lparr> ResolvedSearchConfig.searchMethod = NONE, ResolvedSearchConfig.maxResults = 1,
                 providerConfig = None \<rparr>
               \<lparr> providerCache = Map.empty \<rparr>) = Inr results \<longrightarrow>
        int (length results) \<le>
          ResolvedSearchConfig.maxResults
            \<lparr> ResolvedSearchConfig.searchMethod = NONE, ResolvedSearchConfig.maxResults = 1,
                 providerConfig = None \<rparr>)"
  by (simp add: service_search_def)

lemma js_split_runs_cong:
  "\<forall>c\<in>set s. p c = q c \<Longrightarrow> js_split_runs p cur s = js_split_runs q cur s"
proof (induction p cur s rule: js_split_runs.induct)
  case (1 sep cur)
  then show ?case by simp
next
  case (2 sep cur c cs)
  have same: "dropWhile sep cs = dropWhile q cs"
    using "2.prems" by (intro dropWhile_cong) simp_all
  have rest: "\<forall>x\<in>set (dropWhile sep cs). sep x = q x"
    using "2.prems" by (auto dest: set_dropWhileD)
  show ?case
  proof (cases "sep c")
    case True
    with "2.prems" have "q c" by simp
    with True "2.IH"(1) [OF True rest] same show ?thesis by simp
  next
    case False
    with "2.prems" have "\<not> q c" by simp
    with False "2.IH"(2) [OF False] "2.prems" show ?thesis by simp
  qed
qed

lemma code_unit_toLowerCase_char:
  "code_unit (toLowerCase_char c) =
     (if (65 \<le> code_unit c \<and> code_unit c \<le> 90) \<or>
         (192 \<le> code_unit c \<and> code_unit c \<le> 222 \<and> code_unit c \<noteq> 215)
      then code_unit c + 32 else code_unit c)"
  by (auto simp: toLowerCase_char_def code_unit_def)

lemma code_unit_underscore: "code_unit c = 95 \<longleftrightarrow> c = CHR ''_''"
proof
  assume "code_unit c = 95"
  then have "of_char c = (of_char (CHR ''_'') :: nat)"
    by (simp add: code_unit_def)
  then show "c = CHR ''_''" by (simp only: of_char_eq_iff)
next
  assume "c = CHR ''_''"
  then show "code_unit c = 95" by (simp add: code_unit_def)
qed

text \<open>
  On a text without an underscore the tokenizer of the code and the tokenizer of the
  specification agree: the underscore is the only character they treat differently.
\<close>

lemma tokenize_eq_spec_tokenize:
  assumes "CHR ''_'' \<notin> set text"
  shows "tokenize text = spec_tokenize text"
proof -
  have "is_word_char c = is_alnum_char c" if "c \<in> set (toLowerCase text)" for c
  proof -
    from that obtain d where d: "d \<in> set text" and c: "c = toLowerCase_char d"
      by (auto simp: toLowerCase_def)
    from d assms have "d \<noteq> CHR ''_''" by auto
    then have "code_unit d \<noteq> 95" by (simp add: code_unit_underscore)
    then have "code_unit c \<noteq> 95"
      unfolding c code_unit_toLowerCase_char by auto
    then show ?thesis by (simp add: is_word_char_def is_alnum_char_def)
  qed
  then have "js_split_runs (\<lambda>c. \<not> is_word_char c) [] (toLowerCase text) =
      js_split_runs (\<lambda>c. \<not> is_alnum_char c) [] (toLowerCase text)"
    by (intro js_split_runs_cong) simp
  then show ?thesis
    by (simp add: tokenize_def spec_tokenize_def)
qed

text \<open>
  C5. The tokenizer of the code on the string of the provider's own test, next to the
  tokenizer the specification words: \<open>\W\<close> does not match the underscore, so
  \<open>system_test\<close> stays one token.
\<close>

theorem tokenize_keeps_underscore:
  "tokenize ''file-system_test'' = [''file'', ''system_test''] \<and>
   spec_tokenize ''file-system_test'' = [''file'', ''system'', ''test'']"
  by (simp add: tokenize_def spec_tokenize_def char_eval)

text \<open>
  C7 (amended). For a query that is empty or consists of white space only, and a
  \<open>maxResults\<close> that is absent or not negative, the BM25 provider, and the REGEX provider
  when no custom pattern is configured, return the first \<open>n\<close> available tools in the
  order of the pool, each with score 0.5 and the reason "No search query provided";
  \<open>n\<close> is \<open>maxResults\<close>, or 5 when \<open>maxResults\<close> is absent or 0.
\<close>

theorem empty_query_policy:
  assumes blank: "\<forall>c\<in>set (query q). is_js_space c"
    and count: "maxResults q = None \<or> (\<exists>n\<ge>0. maxResults q = Some n)"
  shows "bm25_search params q availableTools =
           map (\<lambda>a. \<lparr> tool = tool a, serverUuid = serverUuid a, score = 1 / 2,
                       matchReason = ''No search query provided'' \<rparr>)
             (take (nat (case maxResults q of None \<Rightarrow> 5 | Some n \<Rightarrow> if n = 0 then 5 else n))
                availableTools) \<and>
         (pattern config = None \<longrightarrow>
            regex_search RegExp config q availableTools =
              Inr (map (\<lambda>a. \<lparr> tool = tool a, serverUuid = serverUuid a, score = 1 / 2,
                               matchReason = ''No search query provided'' \<rparr>)
                     (take (nat (case maxResults q of None \<Rightarrow> 5
                                 | Some n \<Rightarrow> if n = 0 then 5 else n))
                        availableTools)))"
proof -
  from blank have t: "trim (query q) = []" by (rule trim_blank)
  from count have n: "0 \<le> maxResults_or (maxResults q) 5"
    by (auto simp: maxResults_or_def)
  have m: "maxResults_or (maxResults q) 5 =
      (case maxResults q of None \<Rightarrow> 5 | Some n \<Rightarrow> if n = 0 then 5 else n)"
    by (simp add: maxResults_or_def)
  have neutral: "neutral_result no_query_reason =
      (\<lambda>a. \<lparr> tool = tool a, serverUuid = serverUuid a, score = 1 / 2,
               matchReason = ''No search query provided'' \<rparr>)"
    by (rule ext) (simp add: neutral_result_def no_query_reason_def)
  have bm25: "bm25_search params q availableTools =
      map (neutral_result no_query_reason)
        (take (nat (maxResults_or (maxResults q) 5)) availableTools)"
    by (simp add: bm25_search_def t slice0_nonneg [OF n])
  have regex: "regex_search RegExp config q availableTools =
      Inr (map (neutral_result no_query_reason)
             (take (nat (maxResults_or (maxResults q) 5)) availableTools))"
    if "pattern config = None"
    using that by (simp add: regex_search_def t slice0_nonneg [OF n])
  from bm25 regex show ?thesis
    unfolding neutral m by blast
qed

theorem empty_query_policy_witness:
  "bm25_search default_bm25_params blank_query
     [read_file_tool, write_file_tool, fetch_url_tool] =
     [\<lparr> tool = tool read_file_tool, serverUuid = ''server-1'', score = 1 / 2,
        matchReason = ''No search query provided'' \<rparr>,
      \<lparr> tool = tool write_file_tool, serverUuid = ''server-1'', score = 1 / 2,
        matchReason = ''No search query provided'' \<rparr>] \<and>
   regex_search literal_RegExp default_regex_config blank_query
     [read_file_tool, write_file_tool, fetch_url_tool] =
     Inr [\<lparr> tool = tool read_file_tool, serverUuid = ''server-1'', score = 1 / 2,
            matchReason = ''No search query provided'' \<rparr>,
          \<lparr> tool = tool write_file_tool, serverUuid = ''server-1'', score = 1 / 2,
            matchReason = ''No search query provided'' \<rparr>]"
proof -
  have blank: "\<forall>c\<in>set (query blank_query). is_js_space c"
    by (simp add: blank_query_def char_eval)
  have count: "maxResults blank_query = None \<or> (\<exists>n\<ge>0. maxResults blank_query = Some n)"
    by (simp add: blank_query_def)
  have none: "pattern default_regex_config = None"
    by (simp add: default_regex_config_def)
  have servers: "serverUuid read_file_tool = ''server-1''"
    "serverUuid write_file_tool = ''server-1''"
    by (simp_all add: read_file_tool_def write_file_tool_def)
  have two: "nat (case maxResults blank_query of None \<Rightarrow> 5
      | Some n \<Rightarrow> if n = 0 then 5 else n) = Suc (Suc 0)"
    by (simp add: blank_query_def)
  from empty_query_policy [OF blank count, of default_bm25_params
      "[read_file_tool, write_file_tool, fetch_url_tool]" default_regex_config literal_RegExp]
    none
  show ?thesis
    unfolding two by (simp add: servers)
qed

text \<open>
  C7 as stated covers every search call to the REGEX provider. With a custom pattern
  configured, an empty query is not answered by the empty-query policy: the provider
  matches the pattern, and here, where the pattern occurs in no field, returns nothing.
\<close>

theorem empty_query_policy_counterexample:
  "regex_search literal_RegExp zzz_config \<lparr> query = '''', maxResults = Some 5 \<rparr>
     [read_file_tool] \<noteq>
   Inr (map (\<lambda>a. \<lparr> tool = tool a, serverUuid = serverUuid a, score = 1 / 2,
                    matchReason = ''No search query provided'' \<rparr>)
          (take 5 [read_file_tool]))"
proof -
  have rx: "build_regex literal_RegExp zzz_config \<lparr> query = '''', maxResults = Some 5 \<rparr> =
      Some (\<lambda>text. map_option (\<lambda>i. (i, length ''ZZZ''))
               (find_from 0 ''ZZZ'' (map canonicalize_char text)))"
    by (simp add: search_eval zzz_config_def char_eval)
  have "regex_search literal_RegExp zzz_config \<lparr> query = '''', maxResults = Some 5 \<rparr>
      [read_file_tool] = Inr []"
    unfolding regex_search_def Let_def rx
    by (simp add: zzz_config_def fields_or_default_def regex_results_def searchTool_def
        read_file_tool_def or_empty_def char_eval sort_by_score_def slice0_def
        maxResults_or_def Let_def)
  then show ?thesis by simp
qed

subsection \<open>Rounding\<close>

lemma pow2_pos: "0 < pow2 k"
  by (simp add: pow2_def)

lemma pow2_powr: "pow2 k = 2 powr (of_int k)"
  by (simp add: pow2_def powr_int)

lemma round_half_even_nonneg: "0 \<le> y \<Longrightarrow> 0 \<le> round_half_even y"
  by (simp add: round_half_even_def Let_def)

lemma round_half_even_error: "\<bar>of_int (round_half_even y) - y\<bar> \<le> 1 / 2"
  unfolding round_half_even_def Let_def by (simp; linarith)

lemma round_double_nonneg: "0 \<le> x \<Longrightarrow> 0 \<le> round_double x"
  by (simp add: round_double_def round_half_even_nonneg pow2_pos less_imp_le)

text \<open>A rounded number is at most half a unit in the last place away from the exact one.\<close>

lemma round_double_error: "\<bar>round_double x - x\<bar> \<le> pow2 (binade x - 52) / 2"
proof (cases "x = 0")
  case True
  then show ?thesis by (simp add: round_double_def pow2_pos less_imp_le)
next
  case False
  let ?u = "pow2 (binade x - 52)"
  have u: "0 < ?u" by (rule pow2_pos)
  have "round_double x - x = (of_int (round_half_even (x / ?u)) - x / ?u) * ?u"
    using False u by (simp add: round_double_def field_simps)
  then have "\<bar>round_double x - x\<bar> = \<bar>of_int (round_half_even (x / ?u)) - x / ?u\<bar> * ?u"
    using u by (simp add: abs_mult)
  also have "\<dots> \<le> 1 / 2 * ?u"
    using u by (intro mult_right_mono round_half_even_error) simp
  finally show ?thesis by simp
qed

lemma binade_eq:
  assumes "pow2 e \<le> \<bar>x\<bar>" "\<bar>x\<bar> < pow2 (e + 1)" "- 1022 \<le> e"
  shows "binade x = e"
proof -
  have pos: "0 < \<bar>x\<bar>" using assms(1) pow2_pos [of e] by linarith
  have "\<lfloor>log 2 \<bar>x\<bar>\<rfloor> = e"
    using assms(1,2) pos by (simp add: floor_log_eq_powr_iff pow2_powr)
  with assms(3) show ?thesis by (simp add: binade_def)
qed

text \<open>How a rounding is computed, once the binade of the number is known.\<close>

lemma round_double_eval:
  assumes "pow2 e \<le> \<bar>x\<bar>" "\<bar>x\<bar> < pow2 (e + 1)" "- 1022 \<le> e"
  shows "round_double x = of_int (round_half_even (x / pow2 (e - 52))) * pow2 (e - 52)"
proof -
  have "x \<noteq> 0" using assms(1) pow2_pos [of e] by auto
  then show ?thesis by (simp add: round_double_def binade_eq [OF assms])
qed

lemma double_add_nonneg: "0 \<le> x \<Longrightarrow> 0 \<le> y \<Longrightarrow> 0 \<le> double_add x y"
  by (simp add: double_add_def round_double_nonneg)

lemma double_mul_nonneg: "0 \<le> x \<Longrightarrow> 0 \<le> y \<Longrightarrow> 0 \<le> double_mul x y"
  by (simp add: double_mul_def round_double_nonneg)

lemma fold_double_add_nonneg:
  "0 \<le> a \<Longrightarrow> \<forall>x\<in>set xs. 0 \<le> f x \<Longrightarrow>
   0 \<le> fold (\<lambda>x total. double_add total (f x)) xs a"
  by (induction xs arbitrary: a) (simp_all add: double_add_nonneg)

lemma pow2_mono: "a \<le> b \<Longrightarrow> pow2 a \<le> pow2 b"
  by (simp add: pow2_powr)

lemma pow2_add: "pow2 (a + b) = pow2 a * pow2 b"
  by (simp add: pow2_powr powr_add)

lemma binade_le:
  assumes "x \<noteq> 0" "\<bar>x\<bar> < pow2 (k + 1)" "- 1022 \<le> k"
  shows "binade x \<le> k"
proof -
  from assms(1) have pos: "0 < \<bar>x\<bar>" by simp
  have "log 2 \<bar>x\<bar> < of_int (k + 1)"
    using assms(2) pos by (simp add: pow2_powr log_less_iff)
  then have "\<lfloor>log 2 \<bar>x\<bar>\<rfloor> < k + 1"
    by (simp only: floor_less_iff)
  with assms(3) show ?thesis by (simp add: binade_def)
qed

lemma round_double_abs:
  assumes "\<bar>x\<bar> < pow2 (k + 1)" "- 1022 \<le> k"
  shows "\<bar>round_double x - x\<bar> \<le> pow2 (k - 53)"
proof (cases "x = 0")
  case True
  then show ?thesis using pow2_pos [of "k - 53"] by (simp add: round_double_def)
next
  case False
  have "binade x - 52 \<le> k - 52" using binade_le [OF False assms] by simp
  then have "pow2 (binade x - 52) \<le> pow2 (k - 52)" by (rule pow2_mono)
  moreover have "pow2 (k - 52) = 2 * pow2 (k - 53)"
    using pow2_add [of 1 "k - 53"] by (simp add: pow2_def)
  ultimately show ?thesis using round_double_error [of x] by simp
qed

lemma round_double_abs4: "\<bar>x\<bar> < 4 \<Longrightarrow> \<bar>round_double x - x\<bar> \<le> 1 / 2 ^ 52"
  using round_double_abs [of x 1] by (simp add: pow2_def)

lemma round_double_abs1: "\<bar>x\<bar> < 1 \<Longrightarrow> \<bar>round_double x - x\<bar> \<le> 1 / 2 ^ 54"
  using round_double_abs [of x "-1"] by (simp add: pow2_def)

lemma round_half_even_nonpos:
  assumes "y \<le> 0"
  shows "round_half_even y \<le> 0"
proof -
  have low: "\<lfloor>y\<rfloor> \<le> 0" using assms by (simp add: floor_le_iff)
  have up: "\<lfloor>y\<rfloor> + 1 \<le> 0" if "1 / 2 \<le> y - of_int \<lfloor>y\<rfloor>"
  proof -
    from that assms have "real_of_int \<lfloor>y\<rfloor> < 0" by linarith
    then have "\<lfloor>y\<rfloor> < 0" by (simp only: of_int_less_0_iff)
    then show ?thesis by linarith
  qed
  show ?thesis
    unfolding round_half_even_def Let_def using low up by auto
qed

lemma round_double_nonpos:
  assumes "x \<le> 0"
  shows "round_double x \<le> 0"
proof -
  have "x / pow2 (binade x - 52) \<le> 0"
    using assms pow2_pos [of "binade x - 52"] by (simp add: divide_nonpos_pos)
  then have "round_half_even (x / pow2 (binade x - 52)) \<le> 0"
    by (rule round_half_even_nonpos)
  then show ?thesis
    using pow2_pos [of "binade x - 52"]
    by (simp add: round_double_def mult_nonpos_nonneg less_imp_le)
qed

lemma round_half_even_ge: "of_int n \<le> y \<Longrightarrow> n \<le> round_half_even y"
  unfolding round_half_even_def Let_def by (simp add: le_floor_iff; linarith)

lemma round_double_ge_pow2:
  assumes "pow2 k \<le> x" "- 1022 \<le> k"
  shows "pow2 k \<le> round_double x"
proof -
  have pos: "0 < x" using assms(1) pow2_pos [of k] by linarith
  have "real_of_int k \<le> log 2 x"
    using assms(1) pos by (simp add: pow2_powr le_log_iff)
  then have k: "k \<le> \<lfloor>log 2 x\<rfloor>" by (simp add: le_floor_iff)
  with assms(2) have b: "binade x = \<lfloor>log 2 x\<rfloor>" using pos by (simp add: binade_def)
  let ?e = "\<lfloor>log 2 x\<rfloor>"
  have "2 powr (of_int ?e) \<le> 2 powr (log 2 x)"
    by (simp add: powr_le_cancel_iff)
  then have low: "pow2 ?e \<le> x" using pos by (simp add: pow2_powr)
  have split: "pow2 ?e = 2 ^ 52 * pow2 (?e - 52)"
    using pow2_add [of 52 "?e - 52"] by (simp add: pow2_def)
  have u: "0 < pow2 (?e - 52)" by (rule pow2_pos)
  from low split have "2 ^ 52 \<le> x / pow2 (?e - 52)"
    using u by (simp add: pos_le_divide_eq)
  then have "of_int (2 ^ 52) \<le> x / pow2 (?e - 52)" by simp
  then have "2 ^ 52 \<le> round_half_even (x / pow2 (?e - 52))"
    by (rule round_half_even_ge)
  then have "(2 ^ 52 :: real) \<le> of_int (round_half_even (x / pow2 (?e - 52)))"
    by (metis of_int_le_iff of_int_numeral of_int_power)
  then have "2 ^ 52 * pow2 (?e - 52) \<le>
      of_int (round_half_even (x / pow2 (?e - 52))) * pow2 (?e - 52)"
    using u by (simp add: mult_right_mono less_imp_le)
  then have "pow2 ?e \<le> round_double x"
    using pos b split by (simp add: round_double_def)
  moreover have "pow2 k \<le> pow2 ?e" using k by (rule pow2_mono)
  ultimately show ?thesis by linarith
qed

lemma round_double_abs2: "\<bar>x\<bar> < 2 \<Longrightarrow> \<bar>round_double x - x\<bar> \<le> 1 / 2 ^ 53"
  using round_double_abs [of x 0] by (simp add: pow2_def)

lemma fold_double_add_ge_one:
  "1 \<le> a \<Longrightarrow> \<forall>x\<in>set xs. 0 \<le> f x \<Longrightarrow>
   1 \<le> fold (\<lambda>x total. double_add total (f x)) xs a"
proof (induction xs arbitrary: a)
  case Nil
  then show ?case by simp
next
  case (Cons x xs)
  from Cons.prems have "pow2 0 \<le> a + f x" by (simp add: pow2_def)
  then have "pow2 0 \<le> round_double (a + f x)"
    by (rule round_double_ge_pow2) simp
  then have "1 \<le> double_add a (f x)" by (simp add: double_add_def pow2_def)
  with Cons.IH [of "double_add a (f x)"] Cons.prems show ?case by simp
qed

subsection \<open>The score of the REGEX provider\<close>

lemma match_score_nonneg: "0 \<le> match_score m"
  by (simp add: match_score_def Let_def double_add_nonneg double_mul_nonneg round_double_nonneg
      le_max_iff_disj)

lemma match_score_sum:
  "match_score m =
     double_sum
       [if match_field m = ''name'' then round_double 0.6 else round_double 0.3,
        max (round_double 0.05)
          (double_sub (round_double 0.20)
             (double_mul (round_double 0.003) (real (match_index m)))),
        min (round_double 0.20) (double_mul (round_double 0.02) (real (match_length m)))]"
  by (simp add: match_score_def double_sum_def Let_def double_mul_def mult.commute)

lemma calculateScore_clamped_sum:
  "calculateScore matches =
     max 0 (min 1 (double_sum (map (\<lambda>m.
       double_sum
         [if match_field m = ''name'' then round_double 0.6 else round_double 0.3,
          max (round_double 0.05)
            (double_sub (round_double 0.20)
               (double_mul (round_double 0.003) (real (match_index m)))),
          min (round_double 0.20) (double_mul (round_double 0.02) (real (match_length m)))])
       matches)))"
proof -
  have each: "match_score = (\<lambda>m.
       double_sum
         [if match_field m = ''name'' then round_double 0.6 else round_double 0.3,
          max (round_double 0.05)
            (double_sub (round_double 0.20)
               (double_mul (round_double 0.003) (real (match_index m)))),
          min (round_double 0.20) (double_mul (round_double 0.02) (real (match_length m)))])"
    by (rule ext) (rule match_score_sum)
  have "0 \<le> fold (\<lambda>m totalScore. double_add totalScore (match_score m)) matches 0"
    by (rule fold_double_add_nonneg) (simp_all add: match_score_nonneg)
  then have "calculateScore matches =
      max 0 (min 1 (fold (\<lambda>m totalScore. double_add totalScore (match_score m)) matches 0))"
    by (simp add: calculateScore_def)
  also have "fold (\<lambda>m totalScore. double_add totalScore (match_score m)) matches 0 =
      double_sum (map match_score matches)"
    by (simp add: double_sum_def fold_map comp_def)
  finally show ?thesis
    unfolding each .
qed

text \<open>
  The distance between the score in doubles and the score of the specification in exact
  arithmetic. A position index above 100 and a match length above 50 are dealt with
  apart: there the products are large, and the bonus is the constant on both sides.
\<close>

lemma literal_errors:
  "\<bar>round_double 0.6 - 3 / 5\<bar> \<le> 1 / 2 ^ 54"
  "\<bar>round_double 0.3 - 3 / 10\<bar> \<le> 1 / 2 ^ 54"
  "\<bar>round_double 0.05 - 1 / 20\<bar> \<le> 1 / 2 ^ 54"
  "\<bar>round_double 0.2 - 1 / 5\<bar> \<le> 1 / 2 ^ 54"
  "\<bar>round_double 0.003 - 3 / 1000\<bar> \<le> 1 / 2 ^ 62"
  "\<bar>round_double 0.02 - 1 / 50\<bar> \<le> 1 / 2 ^ 59"
  using round_double_abs [of "0.6" "-1"] round_double_abs [of "0.3" "-1"]
    round_double_abs [of "0.05" "-1"] round_double_abs [of "0.2" "-1"]
    round_double_abs [of "0.003" "-9"] round_double_abs [of "0.02" "-6"]
  by (simp_all add: pow2_def)

lemma scaled_error:
  assumes "n \<le> k" "\<bar>c - d\<bar> \<le> e"
  shows "\<bar>real n * c - d * real n\<bar> \<le> real k * e"
proof -
  have "real n * c - d * real n = real n * (c - d)" by (simp add: algebra_simps)
  then have "\<bar>real n * c - d * real n\<bar> = real n * \<bar>c - d\<bar>" by (simp add: abs_mult)
  also have "\<dots> \<le> real k * e"
    using assms by (intro mult_mono) simp_all
  finally show ?thesis .
qed

lemma position_error:
  "\<bar>max (round_double 0.05)
      (double_sub (round_double 0.2) (double_mul (real i) (round_double 0.003))) -
    max 0.05 (0.20 - 0.003 * real i)\<bar> \<le> 1 / 2 ^ 52"
proof -
  define e :: real where "e = 1 / 2 ^ 54"
  define c where "c = round_double 0.003"
  define a where "a = round_double 0.2"
  define f where "f = round_double 0.05"
  define p where "p = double_mul (real i) c"
  define d where "d = double_sub a p"
  have e: "0 < e" "e < 1 / 1000" by (simp_all add: e_def)
  have c: "\<bar>c - 3 / 1000\<bar> \<le> e / 256" and a: "\<bar>a - 1 / 5\<bar> \<le> e"
    and f: "\<bar>f - 1 / 20\<bar> \<le> e"
    unfolding c_def a_def f_def e_def using literal_errors by simp_all
  have "\<bar>max f d - max (1 / 20) (1 / 5 - 3 / 1000 * real i)\<bar> \<le> 4 * e"
  proof (cases "i \<le> 100")
    case True
    have i: "0 \<le> real i" "real i \<le> 100" using True by simp_all
    have "real (100 :: nat) * (e / 256) \<le> e / 2" using e by simp
    with scaled_error [OF True c] have x: "\<bar>real i * c - 3 / 1000 * real i\<bar> \<le> e / 2"
      by linarith
    then have "\<bar>real i * c\<bar> < 1" using i e by linarith
    then have "\<bar>round_double (real i * c) - real i * c\<bar> \<le> 1 / 2 ^ 54"
      by (rule round_double_abs1)
    then have p: "\<bar>p - real i * c\<bar> \<le> e"
      by (simp add: p_def double_mul_def e_def)
    have "\<bar>a - p\<bar> < 1" using p x a i e by linarith
    then have "\<bar>round_double (a - p) - (a - p)\<bar> \<le> 1 / 2 ^ 54"
      by (rule round_double_abs1)
    then have d: "\<bar>d - (a - p)\<bar> \<le> e"
      by (simp add: d_def double_sub_def e_def)
    have "\<bar>d - (1 / 5 - 3 / 1000 * real i)\<bar> \<le> 4 * e"
      using d p x a e by linarith
    with f e show ?thesis by (simp add: max_def) linarith
  next
    case False
    then have i: "101 \<le> real i" by simp
    have low: "3 / 1000 - e / 256 \<le> c" using c by linarith
    define q where "q = real i * c"
    have "101 * (3 / 1000 - e / 256) \<le> real i * c"
      using i low e by (intro mult_mono) simp_all
    then have "101 * (3 / 1000 - e / 256) \<le> q" by (simp only: q_def)
    moreover have "101 * (3 / 1000 - e / 256) = 303 / 1000 - 101 * e / 256" by simp
    ultimately have "1 / 4 \<le> q" using e by linarith
    then have "1 / 4 \<le> real i * c" by (simp only: q_def)
    then have "pow2 (- 2) \<le> real i * c" by (simp add: pow2_def)
    then have "pow2 (- 2) \<le> round_double (real i * c)"
      by (rule round_double_ge_pow2) simp
    then have p: "1 / 4 \<le> p" by (simp add: p_def double_mul_def pow2_def)
    then have "a - p \<le> 0" using a e by linarith
    then have "round_double (a - p) \<le> 0" by (rule round_double_nonpos)
    then have d: "d \<le> 0" by (simp add: d_def double_sub_def)
    with f e i show ?thesis by (simp add: max_def)
  qed
  then show ?thesis
    by (simp add: c_def a_def f_def p_def d_def e_def)
qed

lemma length_error:
  "\<bar>min (round_double 0.2) (double_mul (real l) (round_double 0.02)) -
    min 0.20 (0.02 * real l)\<bar> \<le> 1 / 2 ^ 52"
proof -
  define e :: real where "e = 1 / 2 ^ 54"
  define c where "c = round_double 0.02"
  define a where "a = round_double 0.2"
  define q where "q = real l * c"
  define y where "y = double_mul (real l) c"
  have e: "0 < e" "e < 1 / 1000" by (simp_all add: e_def)
  have c: "\<bar>c - 1 / 50\<bar> \<le> e / 32" and a: "\<bar>a - 1 / 5\<bar> \<le> e"
    unfolding c_def a_def e_def using literal_errors by simp_all
  have "\<bar>min a y - min (1 / 5) (1 / 50 * real l)\<bar> \<le> 4 * e"
  proof (cases "l \<le> 50")
    case True
    have l: "0 \<le> real l" "real l \<le> 50" using True by simp_all
    have "real (50 :: nat) * (e / 32) \<le> 2 * e" using e by simp
    with scaled_error [OF True c] have x: "\<bar>q - 1 / 50 * real l\<bar> \<le> 2 * e"
      unfolding q_def by linarith
    then have "\<bar>q\<bar> < 2" using l e by linarith
    then have "\<bar>round_double q - q\<bar> \<le> 1 / 2 ^ 53"
      by (rule round_double_abs2)
    then have "\<bar>y - q\<bar> \<le> 2 * e"
      by (simp add: y_def q_def double_mul_def e_def)
    with x have "\<bar>y - 1 / 50 * real l\<bar> \<le> 4 * e" by linarith
    with a e show ?thesis by (simp add: min_def) linarith
  next
    case False
    then have l: "51 \<le> real l" by simp
    have low: "1 / 50 - e / 32 \<le> c" using c by linarith
    have "51 * (1 / 50 - e / 32) \<le> real l * c"
      using l low e by (intro mult_mono) simp_all
    then have "51 * (1 / 50 - e / 32) \<le> q" by (simp only: q_def)
    moreover have "51 * (1 / 50 - e / 32) = 51 / 50 - 51 * e / 32" by simp
    ultimately have "1 \<le> q" using e by linarith
    then have "pow2 0 \<le> q" by (simp add: pow2_def)
    then have "pow2 0 \<le> round_double q"
      by (rule round_double_ge_pow2) simp
    then have y: "1 \<le> y" by (simp add: y_def q_def double_mul_def pow2_def)
    with a e l show ?thesis by (simp add: min_def)
  qed
  then show ?thesis
    by (simp add: c_def a_def y_def e_def)
qed

lemma spec_match_score_bounds: "7 / 20 \<le> spec_match_score m \<and> spec_match_score m \<le> 1"
  by (simp add: spec_match_score_def max_def min_def)

lemma match_score_error: "\<bar>match_score m - spec_match_score m\<bar> \<le> 1 / 2 ^ 50"
proof -
  define e :: real where "e = 1 / 2 ^ 54"
  define W :: real where "W = (if match_field m = ''name'' then 0.6 else 0.3)"
  define P :: real where "P = max 0.05 (0.20 - 0.003 * real (match_index m))"
  define L :: real where "L = min 0.20 (0.02 * real (match_length m))"
  define w where
    "w = (if match_field m = ''name'' then round_double 0.6 else round_double 0.3)"
  define p where "p = max (round_double 0.05)
      (double_sub (round_double 0.2) (double_mul (real (match_index m)) (round_double 0.003)))"
  define l where
    "l = min (round_double 0.2) (double_mul (real (match_length m)) (round_double 0.02))"
  define s0 where "s0 = double_add 0 w"
  define s1 where "s1 = double_add s0 p"
  define s2 where "s2 = double_add s1 l"
  have e: "0 < e" "e < 1 / 1000" by (simp_all add: e_def)
  have W: "3 / 10 \<le> W" "W \<le> 3 / 5" by (simp_all add: W_def)
  have P: "1 / 20 \<le> P" "P \<le> 1 / 5" by (simp_all add: P_def max_def)
  have L: "0 \<le> L" "L \<le> 1 / 5" by (simp_all add: L_def min_def)
  have w: "\<bar>w - W\<bar> \<le> e"
    using literal_errors(1,2) by (simp add: w_def W_def e_def)
  have p: "\<bar>p - P\<bar> \<le> 4 * e"
    using position_error [of "match_index m"] by (simp add: p_def P_def e_def)
  have l: "\<bar>l - L\<bar> \<le> 4 * e"
    using length_error [of "match_length m"] by (simp add: l_def L_def e_def)
  have "\<bar>0 + w\<bar> < 1" using w W e by linarith
  then have "\<bar>round_double (0 + w) - (0 + w)\<bar> \<le> 1 / 2 ^ 54"
    by (rule round_double_abs1)
  then have s0: "\<bar>s0 - w\<bar> \<le> e" by (simp add: s0_def double_add_def e_def)
  have "\<bar>s0 + p\<bar> < 1" using s0 w p W P e by linarith
  then have "\<bar>round_double (s0 + p) - (s0 + p)\<bar> \<le> 1 / 2 ^ 54"
    by (rule round_double_abs1)
  then have s1: "\<bar>s1 - (s0 + p)\<bar> \<le> e" by (simp add: s1_def double_add_def e_def)
  have "\<bar>s1 + l\<bar> < 2" using s1 s0 w p l W P L e by linarith
  then have "\<bar>round_double (s1 + l) - (s1 + l)\<bar> \<le> 1 / 2 ^ 53"
    by (rule round_double_abs2)
  then have s2: "\<bar>s2 - (s1 + l)\<bar> \<le> 2 * e" by (simp add: s2_def double_add_def e_def)
  have "\<bar>s2 - (W + P + L)\<bar> \<le> 16 * e"
    using s2 s1 s0 w p l e by linarith
  moreover have "match_score m = s2"
    by (simp add: match_score_def Let_def s2_def s1_def s0_def w_def p_def l_def)
  moreover have "spec_match_score m = W + P + L"
    by (simp add: spec_match_score_def W_def P_def L_def)
  ultimately show ?thesis by (simp add: e_def)
qed

lemma calculateScore_error: "\<bar>calculateScore matches - spec_score matches\<bar> \<le> 1 / 2 ^ 48"
proof -
  define e :: real where "e = 1 / 2 ^ 54"
  have e: "0 < e" "e < 1 / 1000000" by (simp_all add: e_def)
  have each: "\<bar>match_score m - spec_match_score m\<bar> \<le> 16 * e" for m
    using match_score_error [of m] by (simp add: e_def)
  note bounds = spec_match_score_bounds
  have step1: "\<bar>double_add 0 (match_score m) - spec_match_score m\<bar> \<le> 18 * e" for m
  proof -
    have "\<bar>0 + match_score m\<bar> < 2" using each [of m] bounds [of m] e by linarith
    then have "\<bar>round_double (0 + match_score m) - (0 + match_score m)\<bar> \<le> 1 / 2 ^ 53"
      by (rule round_double_abs2)
    then have "\<bar>double_add 0 (match_score m) - match_score m\<bar> \<le> 2 * e"
      by (simp add: double_add_def e_def)
    with each [of m] show ?thesis by linarith
  qed
  have step2: "\<bar>double_add (double_add 0 (match_score m)) (match_score n) -
      (spec_match_score m + spec_match_score n)\<bar> \<le> 38 * e" for m n
  proof -
    define t where "t = double_add 0 (match_score m)"
    have t: "\<bar>t - spec_match_score m\<bar> \<le> 18 * e" unfolding t_def by (rule step1)
    have "\<bar>t + match_score n\<bar> < 4"
      using t each [of n] bounds [of m] bounds [of n] e by linarith
    then have "\<bar>round_double (t + match_score n) - (t + match_score n)\<bar> \<le> 1 / 2 ^ 52"
      by (rule round_double_abs4)
    then have "\<bar>double_add t (match_score n) - (t + match_score n)\<bar> \<le> 4 * e"
      by (simp add: double_add_def e_def)
    with t each [of n] show ?thesis unfolding t_def by linarith
  qed
  have step3: "\<bar>double_add (double_add (double_add 0 (match_score m)) (match_score n))
        (match_score k) -
      (spec_match_score m + spec_match_score n + spec_match_score k)\<bar> \<le> 58 * e" for m n k
  proof -
    define t where "t = double_add (double_add 0 (match_score m)) (match_score n)"
    have t: "\<bar>t - (spec_match_score m + spec_match_score n)\<bar> \<le> 38 * e"
      unfolding t_def by (rule step2)
    have "\<bar>t + match_score k\<bar> < 4"
      using t each [of k] bounds [of m] bounds [of n] bounds [of k] e by linarith
    then have "\<bar>round_double (t + match_score k) - (t + match_score k)\<bar> \<le> 1 / 2 ^ 52"
      by (rule round_double_abs4)
    then have "\<bar>double_add t (match_score k) - (t + match_score k)\<bar> \<le> 4 * e"
      by (simp add: double_add_def e_def)
    with t each [of k] show ?thesis unfolding t_def by linarith
  qed
  have "\<bar>calculateScore matches - spec_score matches\<bar> \<le> 64 * e"
  proof (cases matches)
    case Nil
    then show ?thesis using e by (simp add: calculateScore_def spec_score_def)
  next
    case (Cons m rest1)
    note first = this
    show ?thesis
    proof (cases rest1)
      case Nil
      have "calculateScore matches = min 1 (double_add 0 (match_score m))"
        by (simp add: first Nil calculateScore_def)
      moreover have "spec_score matches = max 0 (min 1 (spec_match_score m))"
        by (simp add: first Nil spec_score_def)
      ultimately show ?thesis using step1 [of m] bounds [of m] e
        by (simp add: min_def max_def) linarith
    next
      case (Cons n rest2)
      note second = this
      show ?thesis
      proof (cases rest2)
        case Nil
        have "calculateScore matches =
            min 1 (double_add (double_add 0 (match_score m)) (match_score n))"
          by (simp add: first second Nil calculateScore_def)
        moreover have "spec_score matches =
            max 0 (min 1 (spec_match_score m + spec_match_score n))"
          by (simp add: first second Nil spec_score_def)
        ultimately show ?thesis using step2 [of m n] bounds [of m] bounds [of n] e
          by (simp add: min_def max_def) linarith
      next
        case (Cons k rest3)
        define t where
          "t = double_add (double_add (double_add 0 (match_score m)) (match_score n))
                 (match_score k)"
        have "1 \<le> t"
          using step3 [of m n k] bounds [of m] bounds [of n] bounds [of k] e
          unfolding t_def by linarith
        then have "1 \<le> fold (\<lambda>x total. double_add total (match_score x)) rest3 t"
          by (rule fold_double_add_ge_one) (simp add: match_score_nonneg)
        then have code: "calculateScore matches = 1"
          by (simp add: first second Cons calculateScore_def t_def)
        have "0 \<le> spec_match_score x" for x
          using bounds [of x] by linarith
        then have "0 \<le> (\<Sum>x\<leftarrow>rest3. spec_match_score x)"
          by (intro sum_list_nonneg) auto
        then have "1 \<le> (\<Sum>x\<leftarrow>matches. spec_match_score x)"
          using bounds [of m] bounds [of n] bounds [of k] by (simp add: first second Cons)
        then have "spec_score matches = 1" by (simp add: spec_score_def)
        with code e show ?thesis by simp
      qed
    qed
  qed
  then show ?thesis by (simp add: e_def)
qed

lemma slice0_subset: "set (slice0 n xs) \<subseteq> set xs"
  by (auto simp: slice0_def dest: in_set_takeD)

lemma regex_results_score:
  assumes "r \<in> set (regex_results regex fs availableTools)"
  shows "searchTool (tool r) regex fs \<noteq> [] \<and>
         score r = calculateScore (searchTool (tool r) regex fs)"
  using assms by (auto simp: regex_results_def Let_def split: if_splits)

text \<open>
  C8. In the arithmetic of doubles, \<open>calculateScore\<close> is the sum, over the field matches,
  of the sum of the field weight (0.6 for the name, 0.3 otherwise, that is for the
  description), the position bonus \<open>max(0.05, 0.20 - 0.003 * index)\<close> and the length bonus
  \<open>min(0.20, 0.02 * length)\<close>, clamped to the interval from 0 to 1: each literal is the
  double nearest to it, each product, difference and sum is rounded, and the sums are
  taken from the left. This score is within \<open>2^(-48)\<close> of \<open>spec_score\<close>, the same formula in
  exact arithmetic. Every result of a REGEX search that goes through matching carries,
  as its score, \<open>calculateScore\<close> of the matches \<open>searchTool\<close> records for its tool with the
  compiled expression, and those matches are not empty.
\<close>

theorem regex_score_formula:
  "calculateScore matches =
     max 0 (min 1 (double_sum (map (\<lambda>m.
       double_sum
         [if match_field m = ''name'' then round_double 0.6 else round_double 0.3,
          max (round_double 0.05)
            (double_sub (round_double 0.20)
               (double_mul (round_double 0.003) (real (match_index m)))),
          min (round_double 0.20) (double_mul (round_double 0.02) (real (match_length m)))])
       matches))) \<and>
   \<bar>calculateScore matches - spec_score matches\<bar> \<le> 1 / 2 ^ 48 \<and>
   (\<forall>regex results.
      (pattern config \<noteq> None \<or> trim (query q) \<noteq> []) \<and>
      build_regex RegExp config q = Some regex \<and>
      regex_search RegExp config q availableTools = Inr results \<longrightarrow>
      (\<forall>r\<in>set results.
         searchTool (tool r) regex (fields_or_default config) \<noteq> [] \<and>
         score r = calculateScore (searchTool (tool r) regex (fields_or_default config))))"
proof -
  have formula: "calculateScore matches =
     max 0 (min 1 (double_sum (map (\<lambda>m.
       double_sum
         [if match_field m = ''name'' then round_double 0.6 else round_double 0.3,
          max (round_double 0.05)
            (double_sub (round_double 0.20)
               (double_mul (round_double 0.003) (real (match_index m)))),
          min (round_double 0.20) (double_mul (round_double 0.02) (real (match_length m)))])
       matches)))"
    by (rule calculateScore_clamped_sum)
  have results: "searchTool (tool r) regex (fields_or_default config) \<noteq> [] \<and>
         score r = calculateScore (searchTool (tool r) regex (fields_or_default config))"
    if path: "pattern config \<noteq> None \<or> trim (query q) \<noteq> []"
      and rx: "build_regex RegExp config q = Some regex"
      and run: "regex_search RegExp config q availableTools = Inr results"
      and r: "r \<in> set results"
    for regex results r
  proof -
    have "trim [] = []" by (simp add: trim_def)
    with path have "pattern config \<noteq> None \<or> (query q \<noteq> [] \<and> 0 < length (trim (query q)))"
      by (cases "query q = []") simp_all
    then have cond: "\<not> (\<not> pattern config \<noteq> None \<and>
        \<not> (query q \<noteq> [] \<and> length (trim (query q)) > 0))"
      by blast
    have "regex_search RegExp config q availableTools =
        (case build_regex RegExp config q of
           None \<Rightarrow> Inl (SyntaxError ''Invalid regular expression'')
         | Some regex \<Rightarrow>
             Inr (slice0 (maxResults_or (maxResults q) 5)
                    (sort_by_score
                       (regex_results regex (fields_or_default config) availableTools))))"
      by (simp only: regex_search_def Let_def if_not_P [OF cond])
    with run rx have "results =
        slice0 (maxResults_or (maxResults q) 5)
          (sort_by_score (regex_results regex (fields_or_default config) availableTools))"
      by simp
    with r have "r \<in> set (slice0 (maxResults_or (maxResults q) 5)
          (sort_by_score (regex_results regex (fields_or_default config) availableTools)))"
      by simp
    with slice0_subset have "r \<in> set (sort_by_score
        (regex_results regex (fields_or_default config) availableTools))"
      by (rule subsetD)
    then have "r \<in> set (regex_results regex (fields_or_default config) availableTools)"
      by (simp add: sort_by_score_def)
    then show ?thesis by (rule regex_results_score)
  qed
  have second: "\<forall>regex results.
      (pattern config \<noteq> None \<or> trim (query q) \<noteq> []) \<and>
      build_regex RegExp config q = Some regex \<and>
      regex_search RegExp config q availableTools = Inr results \<longrightarrow>
      (\<forall>r\<in>set results.
         searchTool (tool r) regex (fields_or_default config) \<noteq> [] \<and>
         score r = calculateScore (searchTool (tool r) regex (fields_or_default config)))"
  proof (intro allI impI ballI)
    fix regex results r
    assume h: "(pattern config \<noteq> None \<or> trim (query q) \<noteq> []) \<and>
      build_regex RegExp config q = Some regex \<and>
      regex_search RegExp config q availableTools = Inr results"
      and r: "r \<in> set results"
    from h have path: "pattern config \<noteq> None \<or> trim (query q) \<noteq> []"
      and rx: "build_regex RegExp config q = Some regex"
      and run: "regex_search RegExp config q availableTools = Inr results"
      by simp_all
    show "searchTool (tool r) regex (fields_or_default config) \<noteq> [] \<and>
         score r = calculateScore (searchTool (tool r) regex (fields_or_default config))"
      by (rule results [OF path rx run r])
  qed
  have bound: "\<bar>calculateScore matches - spec_score matches\<bar> \<le> 1 / 2 ^ 48"
    by (rule calculateScore_error)
  from formula bound second show ?thesis by (intro conjI)
qed

lemma fetch_build:
  "build_regex literal_RegExp default_regex_config fetch_query = Some fetch_regex"
  by (simp add: search_eval fetch_query_def fetch_regex_def char_eval)

lemma fetch_matches:
  "searchTool (tool fetch_url_tool) fetch_regex [''name'', ''description''] =
     [\<lparr> match_field = ''name'', match_index = 5, match_length = 6 \<rparr>]"
  "searchTool (tool read_file_tool) fetch_regex [''name'', ''description''] = []"
  by (simp_all add: searchTool_def fetch_regex_def fetch_url_tool_def read_file_tool_def
      or_empty_def char_eval)

text \<open>
  The score of a match in the name at index 5 with length 6, operation by operation. The
  result is the double that prints as 0.9049999999999999; the exact sum of the three
  decimal terms would be 0.905.
\<close>

lemma literal_values:
  "round_double 0.6 = 5404319552844595 / 2 ^ 53"
  "round_double 0.05 = 3602879701896397 / 2 ^ 56"
  "round_double 0.2 = 3602879701896397 / 2 ^ 54"
  "round_double 0.003 = 3458764513820541 / 2 ^ 60"
  "round_double 0.02 = 5764607523034235 / 2 ^ 58"
proof -
  show "round_double 0.6 = 5404319552844595 / 2 ^ 53"
    by (subst round_double_eval [of "-1"]) (simp_all add: pow2_def round_half_even_def Let_def)
  show "round_double 0.05 = 3602879701896397 / 2 ^ 56"
    by (subst round_double_eval [of "-5"]) (simp_all add: pow2_def round_half_even_def Let_def)
  show "round_double 0.2 = 3602879701896397 / 2 ^ 54"
    by (subst round_double_eval [of "-3"]) (simp_all add: pow2_def round_half_even_def Let_def)
  show "round_double 0.003 = 3458764513820541 / 2 ^ 60"
    by (subst round_double_eval [of "-9"]) (simp_all add: pow2_def round_half_even_def Let_def)
  show "round_double 0.02 = 5764607523034235 / 2 ^ 58"
    by (subst round_double_eval [of "-6"]) (simp_all add: pow2_def round_half_even_def Let_def)
qed

lemma position_steps:
  "double_mul 5 (3458764513820541 / 2 ^ 60) = 1080863910568919 / 2 ^ 56"
  "double_sub (3602879701896397 / 2 ^ 54) (1080863910568919 / 2 ^ 56) =
     3332663724254167 / 2 ^ 54"
  "max (3602879701896397 / 2 ^ 56) (3332663724254167 / 2 ^ 54) =
     (3332663724254167 / 2 ^ 54 :: real)"
proof -
  show "double_mul 5 (3458764513820541 / 2 ^ 60) = 1080863910568919 / 2 ^ 56"
    unfolding double_mul_def by (subst round_double_eval [of "-7"]) (simp_all add: pow2_def round_half_even_def Let_def)
  show "double_sub (3602879701896397 / 2 ^ 54) (1080863910568919 / 2 ^ 56) =
     3332663724254167 / 2 ^ 54"
    unfolding double_sub_def by (subst round_double_eval [of "-3"]) (simp_all add: pow2_def round_half_even_def Let_def)
  show "max (3602879701896397 / 2 ^ 56) (3332663724254167 / 2 ^ 54) =
     (3332663724254167 / 2 ^ 54 :: real)"
    by simp
qed

lemma length_steps:
  "double_mul 6 (5764607523034235 / 2 ^ 58) = 1080863910568919 / 2 ^ 53"
  "min (3602879701896397 / 2 ^ 54) (1080863910568919 / 2 ^ 53) =
     (1080863910568919 / 2 ^ 53 :: real)"
proof -
  show "double_mul 6 (5764607523034235 / 2 ^ 58) = 1080863910568919 / 2 ^ 53"
    unfolding double_mul_def by (subst round_double_eval [of "-4"]) (simp_all add: pow2_def round_half_even_def Let_def)
  show "min (3602879701896397 / 2 ^ 54) (1080863910568919 / 2 ^ 53) =
     (1080863910568919 / 2 ^ 53 :: real)"
    by simp
qed

lemma sum_steps:
  "double_add 0 (5404319552844595 / 2 ^ 53) = 5404319552844595 / 2 ^ 53"
  "double_add (5404319552844595 / 2 ^ 53) (3332663724254167 / 2 ^ 54) =
     3535325707485839 / 2 ^ 52"
  "double_add (3535325707485839 / 2 ^ 52) (1080863910568919 / 2 ^ 53) =
     8151515325540597 / 2 ^ 53"
  "double_add 0 (8151515325540597 / 2 ^ 53) = 8151515325540597 / 2 ^ 53"
proof -
  show "double_add 0 (5404319552844595 / 2 ^ 53) = 5404319552844595 / 2 ^ 53"
    unfolding double_add_def by (subst round_double_eval [of "-1"]) (simp_all add: pow2_def round_half_even_def Let_def)
  show "double_add (5404319552844595 / 2 ^ 53) (3332663724254167 / 2 ^ 54) =
     3535325707485839 / 2 ^ 52"
    unfolding double_add_def by (subst round_double_eval [of "-1"]) (simp_all add: pow2_def round_half_even_def Let_def)
  show "double_add (3535325707485839 / 2 ^ 52) (1080863910568919 / 2 ^ 53) =
     8151515325540597 / 2 ^ 53"
    unfolding double_add_def by (subst round_double_eval [of "-1"]) (simp_all add: pow2_def round_half_even_def Let_def)
  show "double_add 0 (8151515325540597 / 2 ^ 53) = 8151515325540597 / 2 ^ 53"
    unfolding double_add_def by (subst round_double_eval [of "-1"]) (simp_all add: pow2_def round_half_even_def Let_def)
qed

lemma fetch_score:
  "calculateScore [\<lparr> match_field = ''name'', match_index = 5, match_length = 6 \<rparr>] =
     8151515325540597 / 2 ^ 53"
  unfolding calculateScore_def match_score_def Let_def
  apply (simp only: fold.simps comp_def id_def RegexMatch.simps refl if_True literal_values
      of_nat_numeral)
  apply (simp only: position_steps length_steps sum_steps(1))
  apply (simp only: sum_steps(2))
  apply (simp only: sum_steps(3))
  apply (simp only: sum_steps(4))
  apply simp
  done

lemma fetch_score_error:
  "spec_score [\<lparr> match_field = ''name'', match_index = 5, match_length = 6 \<rparr>] = 0.905 \<and>
   \<bar>calculateScore [\<lparr> match_field = ''name'', match_index = 5, match_length = 6 \<rparr>] -
      spec_score [\<lparr> match_field = ''name'', match_index = 5, match_length = 6 \<rparr>]\<bar>
     \<le> 1 / 2 ^ 53"
  by (simp add: fetch_score spec_score_def spec_match_score_def)

text \<open>
  Two matches in the name, at index 1 with length 4 and at index 21 with length 7. The
  exact sums of their decimal terms are both 0.877; their scores are the doubles that
  print as 0.8769999999999999 and 0.877, so a sort by descending score puts the second
  before the first.
\<close>

lemma score_index_1_length_4:
  "calculateScore [\<lparr> match_field = ''name'', match_index = 1, match_length = 4 \<rparr>] =
     7899313746407849 / 2 ^ 53"
proof -
  have weight: "double_add (0) (5404319552844595 / 2 ^ 53) = 5404319552844595 / 2 ^ 53"
    unfolding double_add_def
    by (subst round_double_eval [of "-1"]) (simp_all add: pow2_def round_half_even_def Let_def)
  have product: "double_mul (1) (3458764513820541 / 2 ^ 60) = 3458764513820541 / 2 ^ 60"
    unfolding double_mul_def
    by (subst round_double_eval [of "-9"]) (simp_all add: pow2_def round_half_even_def Let_def)
  have difference: "double_sub (3602879701896397 / 2 ^ 54) (3458764513820541 / 2 ^ 60) =
      3548836506367951 / 2 ^ 54"
    unfolding double_sub_def
    by (subst round_double_eval [of "-3"]) (simp_all add: pow2_def round_half_even_def Let_def)
  have position: "max (3602879701896397 / 2 ^ 56) (3548836506367951 / 2 ^ 54) =
      (3548836506367951 / 2 ^ 54 :: real)"
    by simp
  have first: "double_add (5404319552844595 / 2 ^ 53) (3548836506367951 / 2 ^ 54) =
      3589368903014285 / 2 ^ 52"
    unfolding double_add_def
    by (subst round_double_eval [of "-1"]) (simp_all add: pow2_def round_half_even_def Let_def)
  have scaled: "double_mul (4) (5764607523034235 / 2 ^ 58) = 5764607523034235 / 2 ^ 56"
    unfolding double_mul_def
    by (subst round_double_eval [of "-4"]) (simp_all add: pow2_def round_half_even_def Let_def)
  have bonus: "min (3602879701896397 / 2 ^ 54) (5764607523034235 / 2 ^ 56) =
      (5764607523034235 / 2 ^ 56 :: real)"
    by simp
  have second: "double_add (3589368903014285 / 2 ^ 52) (5764607523034235 / 2 ^ 56) =
      7899313746407849 / 2 ^ 53"
    unfolding double_add_def
    by (subst round_double_eval [of "-1"]) (simp_all add: pow2_def round_half_even_def Let_def)
  have total: "double_add (0) (7899313746407849 / 2 ^ 53) = 7899313746407849 / 2 ^ 53"
    unfolding double_add_def
    by (subst round_double_eval [of "-1"]) (simp_all add: pow2_def round_half_even_def Let_def)
  show ?thesis
    unfolding calculateScore_def match_score_def Let_def
    apply (simp only: fold.simps comp_def id_def RegexMatch.simps refl if_True literal_values
        of_nat_numeral of_nat_1)
    apply (simp only: weight product difference position first scaled bonus second total)
    apply simp
    done
qed

lemma score_index_21_length_7:
  "calculateScore [\<lparr> match_field = ''name'', match_index = 21, match_length = 7 \<rparr>] =
     3949656873203925 / 2 ^ 52"
proof -
  have weight: "double_add (0) (5404319552844595 / 2 ^ 53) = 5404319552844595 / 2 ^ 53"
    unfolding double_add_def
    by (subst round_double_eval [of "-1"]) (simp_all add: pow2_def round_half_even_def Let_def)
  have product: "double_mul (21) (3458764513820541 / 2 ^ 60) = 1134907106097365 / 2 ^ 54"
    unfolding double_mul_def
    by (subst round_double_eval [of "-4"]) (simp_all add: pow2_def round_half_even_def Let_def)
  have difference: "double_sub (3602879701896397 / 2 ^ 54) (1134907106097365 / 2 ^ 54) =
      308496574474879 / 2 ^ 51"
    unfolding double_sub_def
    by (subst round_double_eval [of "-3"]) (simp_all add: pow2_def round_half_even_def Let_def)
  have position: "max (3602879701896397 / 2 ^ 56) (308496574474879 / 2 ^ 51) =
      (308496574474879 / 2 ^ 51 :: real)"
    by simp
  have first: "double_add (5404319552844595 / 2 ^ 53) (308496574474879 / 2 ^ 51) =
      6638305850744111 / 2 ^ 53"
    unfolding double_add_def
    by (subst round_double_eval [of "-1"]) (simp_all add: pow2_def round_half_even_def Let_def)
  have scaled: "double_mul (7) (5764607523034235 / 2 ^ 58) = 1261007895663739 / 2 ^ 53"
    unfolding double_mul_def
    by (subst round_double_eval [of "-3"]) (simp_all add: pow2_def round_half_even_def Let_def)
  have bonus: "min (3602879701896397 / 2 ^ 54) (1261007895663739 / 2 ^ 53) =
      (1261007895663739 / 2 ^ 53 :: real)"
    by simp
  have second: "double_add (6638305850744111 / 2 ^ 53) (1261007895663739 / 2 ^ 53) =
      3949656873203925 / 2 ^ 52"
    unfolding double_add_def
    by (subst round_double_eval [of "-1"]) (simp_all add: pow2_def round_half_even_def Let_def)
  have total: "double_add (0) (3949656873203925 / 2 ^ 52) = 3949656873203925 / 2 ^ 52"
    unfolding double_add_def
    by (subst round_double_eval [of "-1"]) (simp_all add: pow2_def round_half_even_def Let_def)
  show ?thesis
    unfolding calculateScore_def match_score_def Let_def
    apply (simp only: fold.simps comp_def id_def RegexMatch.simps refl if_True literal_values
        of_nat_numeral of_nat_1)
    apply (simp only: weight product difference position first scaled bonus second total)
    apply simp
    done
qed

lemma scores_of_equal_exact_sums:
  "spec_score [\<lparr> match_field = ''name'', match_index = 1, match_length = 4 \<rparr>] = 0.877 \<and>
   spec_score [\<lparr> match_field = ''name'', match_index = 21, match_length = 7 \<rparr>] = 0.877 \<and>
   calculateScore [\<lparr> match_field = ''name'', match_index = 1, match_length = 4 \<rparr>] <
   calculateScore [\<lparr> match_field = ''name'', match_index = 21, match_length = 7 \<rparr>]"
  unfolding score_index_1_length_4 score_index_21_length_7
  by (simp add: spec_score_def spec_match_score_def)

lemma fetch_run:
  "regex_search literal_RegExp default_regex_config fetch_query
     [read_file_tool, fetch_url_tool] =
   Inr [\<lparr> tool = tool fetch_url_tool, serverUuid = ''server-2'',
          score = 8151515325540597 / 2 ^ 53, matchReason = ''Matched in name'' \<rparr>]"
proof -
  have blank: "trim ''fetch_'' = ''fetch_''"
    by (simp add: trim_def char_eval)
  have server: "serverUuid fetch_url_tool = ''server-2''"
    by (simp add: fetch_url_tool_def)
  show ?thesis
    unfolding regex_search_def Let_def fetch_build
    by (simp add: fetch_query_def blank default_regex_config_def fields_or_default_def
        regex_results_def fetch_matches fetch_score
        regex_buildMatchReason_def unique_def sort_by_score_def slice0_def
        maxResults_or_def server Let_def)
qed

theorem regex_score_formula_witness:
  "regex_search literal_RegExp default_regex_config fetch_query
     [read_file_tool, fetch_url_tool] =
   Inr [\<lparr> tool = tool fetch_url_tool, serverUuid = ''server-2'',
          score = 8151515325540597 / 2 ^ 53, matchReason = ''Matched in name'' \<rparr>] \<and>
   searchTool (tool fetch_url_tool) fetch_regex [''name'', ''description''] =
     [\<lparr> match_field = ''name'', match_index = 5, match_length = 6 \<rparr>] \<and>
   calculateScore [\<lparr> match_field = ''name'', match_index = 5, match_length = 6 \<rparr>] =
     max 0 (min 1 (double_sum
       [double_sum
          [round_double 0.6,
           max (round_double 0.05)
             (double_sub (round_double 0.20) (double_mul (round_double 0.003) 5)),
           min (round_double 0.20) (double_mul (round_double 0.02) 6)]])) \<and>
   \<bar>calculateScore [\<lparr> match_field = ''name'', match_index = 5, match_length = 6 \<rparr>] -
      spec_score [\<lparr> match_field = ''name'', match_index = 5, match_length = 6 \<rparr>]\<bar>
     \<le> 1 / 2 ^ 48 \<and>
   score \<lparr> tool = tool fetch_url_tool, serverUuid = ''server-2'',
           score = 8151515325540597 / 2 ^ 53, matchReason = ''Matched in name'' \<rparr> =
     calculateScore [\<lparr> match_field = ''name'', match_index = 5, match_length = 6 \<rparr>]"
proof -
  let ?r = "\<lparr> tool = tool fetch_url_tool, serverUuid = ''server-2'',
             score = 8151515325540597 / 2 ^ 53, matchReason = ''Matched in name'' \<rparr>"
  let ?m = "\<lparr> match_field = ''name'', match_index = 5, match_length = 6 \<rparr>"
  note all = regex_score_formula [of "[?m]" default_regex_config fetch_query literal_RegExp
      "[read_file_tool, fetch_url_tool]"]
  from all have formula: "calculateScore [?m] =
      max 0 (min 1 (double_sum
        [double_sum
           [round_double 0.6,
            max (round_double 0.05)
              (double_sub (round_double 0.20) (double_mul (round_double 0.003) 5)),
            min (round_double 0.20) (double_mul (round_double 0.02) 6)]]))"
    by simp
  from all have bound: "\<bar>calculateScore [?m] - spec_score [?m]\<bar> \<le> 1 / 2 ^ 48"
    by (rule conjunct2 [THEN conjunct1])
  have path: "pattern default_regex_config \<noteq> None \<or> trim (query fetch_query) \<noteq> []"
    by (simp add: fetch_query_def trim_def char_eval)
  have fs: "fields_or_default default_regex_config = [''name'', ''description'']"
    by (simp add: fields_or_default_def default_regex_config_def)
  from all have "\<forall>regex results.
      (pattern default_regex_config \<noteq> None \<or> trim (query fetch_query) \<noteq> []) \<and>
      build_regex literal_RegExp default_regex_config fetch_query = Some regex \<and>
      regex_search literal_RegExp default_regex_config fetch_query
        [read_file_tool, fetch_url_tool] = Inr results \<longrightarrow>
      (\<forall>r\<in>set results.
         searchTool (tool r) regex (fields_or_default default_regex_config) \<noteq> [] \<and>
         score r =
           calculateScore (searchTool (tool r) regex (fields_or_default default_regex_config)))"
    by (rule conjunct2 [THEN conjunct2])
  then have "(pattern default_regex_config \<noteq> None \<or> trim (query fetch_query) \<noteq> []) \<and>
      build_regex literal_RegExp default_regex_config fetch_query = Some fetch_regex \<and>
      regex_search literal_RegExp default_regex_config fetch_query
        [read_file_tool, fetch_url_tool] = Inr [?r] \<longrightarrow>
      (\<forall>r\<in>set [?r].
         searchTool (tool r) fetch_regex (fields_or_default default_regex_config) \<noteq> [] \<and>
         score r =
           calculateScore
             (searchTool (tool r) fetch_regex (fields_or_default default_regex_config)))"
    by blast
  with path fetch_build fetch_run have "\<forall>r\<in>set [?r].
         searchTool (tool r) fetch_regex (fields_or_default default_regex_config) \<noteq> [] \<and>
         score r =
           calculateScore
             (searchTool (tool r) fetch_regex (fields_or_default default_regex_config))"
    by blast
  then have "score ?r = calculateScore (searchTool (tool ?r) fetch_regex [''name'', ''description''])"
    by (simp add: fs)
  then have scored: "score ?r = calculateScore [?m]"
    by (simp add: fetch_matches)
  from fetch_run fetch_matches(1) formula bound scored show ?thesis
    by (intro conjI)
qed

section \<open>Properties of the execute tool\<close>

text \<open>
  C4. When \<open>tool_name\<close> is the name of the built-in search tool or of the execute tool
  itself, the dispatcher returns the error result whose text is
  \<open>Error: Cannot execute builtin tool "<name>" via metamcp_execute_tool\<close>, with
  \<open>isError = true\<close>. The result is the same for every candidate pool, every validator and
  every proxy function, and the world the proxy function acts on is left as it was: the
  pool is not searched, nothing is validated and the proxy function is not called.
\<close>

theorem executeToolExecution_refuses_builtins:
  assumes "tool_name args = TOOL_SEARCH_TOOL_NAME \<or> tool_name args = TOOL_EXECUTE_TOOL_NAME"
  shows "executeToolExecution compile stringify proxyFunction args availableTools w =
           (\<lparr> content =
                [TextContent (''Error: Cannot execute builtin tool '' @ [CHR 0x22] @
                              tool_name args @ [CHR 0x22] @ '' via metamcp_execute_tool'')],
              isError = Some True \<rparr>, w) \<and>
         (\<exists>before after.
            content (fst (executeToolExecution compile stringify proxyFunction args
                            availableTools w)) =
              [TextContent (before @ ''Cannot execute builtin tool '' @ [CHR 0x22] @
                            tool_name args @ [CHR 0x22] @ after)])"
proof -
  from assms have first: "executeToolExecution compile stringify proxyFunction args availableTools w =
      (\<lparr> content =
           [TextContent (''Error: Cannot execute builtin tool '' @ [CHR 0x22] @
                         tool_name args @ [CHR 0x22] @ '' via metamcp_execute_tool'')],
         isError = Some True \<rparr>, w)"
    by (auto simp: executeToolExecution_def error_result_def quoted_def)
  have "''Error: Cannot execute builtin tool '' @ [CHR 0x22] @ tool_name args @ [CHR 0x22] @
          '' via metamcp_execute_tool'' =
        ''Error: '' @ ''Cannot execute builtin tool '' @ [CHR 0x22] @ tool_name args @
          [CHR 0x22] @ '' via metamcp_execute_tool''"
    by simp
  with first have "content (fst (executeToolExecution compile stringify proxyFunction args
        availableTools w)) =
      [TextContent (''Error: '' @ ''Cannot execute builtin tool '' @ [CHR 0x22] @
                    tool_name args @ [CHR 0x22] @ '' via metamcp_execute_tool'')]"
    by simp
  then have "\<exists>before after.
      content (fst (executeToolExecution compile stringify proxyFunction args availableTools w)) =
        [TextContent (before @ ''Cannot execute builtin tool '' @ [CHR 0x22] @
                      tool_name args @ [CHR 0x22] @ after)]"
    by blast
  with first show ?thesis by (rule conjI)
qed

theorem executeToolExecution_refuses_builtins_witness:
  "executeToolExecution accepting_ajv no_stringify counting_proxy
     \<lparr> tool_name = ''metamcp_search_tools'', arguments = JObj [] \<rparr>
     [search_tools_entry, read_file_tool] (0::nat) =
     (\<lparr> content =
          [TextContent (''Error: Cannot execute builtin tool '' @ [CHR 0x22] @
                        ''metamcp_search_tools'' @ [CHR 0x22] @ '' via metamcp_execute_tool'')],
        isError = Some True \<rparr>, 0) \<and>
   executeToolExecution accepting_ajv no_stringify counting_proxy
     \<lparr> tool_name = ''filesystem__read_file'', arguments = JObj [] \<rparr>
     [search_tools_entry, read_file_tool] (0::nat) =
     (\<lparr> content = [TextContent ''ok''], isError = None \<rparr>, 1)"
proof -
  have builtin: "tool_name \<lparr> tool_name = ''metamcp_search_tools'', arguments = JObj [] \<rparr> =
        TOOL_SEARCH_TOOL_NAME \<or>
      tool_name \<lparr> tool_name = ''metamcp_search_tools'', arguments = JObj [] \<rparr> =
        TOOL_EXECUTE_TOOL_NAME"
    by (simp add: TOOL_SEARCH_TOOL_NAME_def)
  have other: "executeToolExecution accepting_ajv no_stringify counting_proxy
     \<lparr> tool_name = ''filesystem__read_file'', arguments = JObj [] \<rparr>
     [search_tools_entry, read_file_tool] (0::nat) =
     (\<lparr> content = [TextContent ''ok''], isError = None \<rparr>, 1)"
    by (simp add: executeToolExecution_def TOOL_SEARCH_TOOL_NAME_def TOOL_EXECUTE_TOOL_NAME_def
        search_tools_entry_def read_file_tool_def validateToolArguments_def accepting_ajv_def
        counting_proxy_def default_schema_def)
  from executeToolExecution_refuses_builtins [OF builtin, of accepting_ajv no_stringify
      counting_proxy "[search_tools_entry, read_file_tool]" "0::nat"] other
  show ?thesis by simp
qed

section \<open>Properties of the request schemas\<close>

lemma example_uuid_layout: "uuid_layout example_uuid"
  by code_simp

lemma zod_accepts_three_fields:
  "zod_accepts_fields uuid [(ka, sa), (kb, sb), (kc, sc)] kvs =
     (zod_accepts uuid sa (map_of kvs ka) \<and> zod_accepts uuid sb (map_of kvs kb) \<and>
      zod_accepts uuid sc (map_of kvs kc))"
  by simp

lemma accepts_uuid:
  "zod_accepts uuid ZStringUuid input = (\<exists>u. input = Some (JStr u) \<and> uuid u)"
  by (auto split: option.splits json.splits)

lemma accepts_maxResults:
  "zod_accepts uuid (ZNumber (Some 1) (Some 20) True) input =
     (\<exists>n. input = Some (JNum n) \<and> n \<in> \<int> \<and> 1 \<le> n \<and> n \<le> 20)"
  by (auto split: option.splits json.splits)

lemma accepts_providerConfig:
  "zod_accepts uuid (ZOptional (ZNullable (ZRecord ZUnknown))) input =
     (input = None \<or> input = Some JNull \<or> (\<exists>cfg. input = Some (JObj cfg)))"
  by (auto simp: list_all_iff split: option.splits json.splits)

text \<open>
  C6 (amended). The \<open>upsert\<close> procedure rejects a request object exactly when
  \<open>namespaceUuid\<close> is not a string in UUID format, or \<open>maxResults\<close> is not an integer from 1
  to 20, or \<open>providerConfig\<close> is present and neither \<open>null\<close> nor an object. What the
  \<open>providerConfig\<close> object holds, \<open>k1\<close> and \<open>b\<close> included, does not enter the decision.
\<close>

theorem upsert_input_validation:
  "(upsert_procedure uuid implementation (JObj kvs) = Inl BAD_REQUEST) =
     (\<not> ((\<exists>u. map_of kvs ''namespaceUuid'' = Some (JStr u) \<and> uuid u) \<and>
         (\<exists>n. map_of kvs ''maxResults'' = Some (JNum n) \<and> n \<in> \<int> \<and> 1 \<le> n \<and> n \<le> 20) \<and>
         (map_of kvs ''providerConfig'' = None \<or>
          map_of kvs ''providerConfig'' = Some JNull \<or>
          (\<exists>cfg. map_of kvs ''providerConfig'' = Some (JObj cfg)))))"
proof -
  have rejected: "(upsert_procedure uuid implementation (JObj kvs) = Inl BAD_REQUEST) =
      (\<not> zod_accepts uuid UpsertToolSearchConfigRequestSchema (Some (JObj kvs)))"
    by (simp add: upsert_procedure_def)
  have accepted: "zod_accepts uuid UpsertToolSearchConfigRequestSchema (Some (JObj kvs)) =
      ((\<exists>u. map_of kvs ''namespaceUuid'' = Some (JStr u) \<and> uuid u) \<and>
       (\<exists>n. map_of kvs ''maxResults'' = Some (JNum n) \<and> n \<in> \<int> \<and> 1 \<le> n \<and> n \<le> 20) \<and>
       (map_of kvs ''providerConfig'' = None \<or>
        map_of kvs ''providerConfig'' = Some JNull \<or>
        (\<exists>cfg. map_of kvs ''providerConfig'' = Some (JObj cfg))))"
    unfolding UpsertToolSearchConfigRequestSchema_def ToolSearchConfigUpsertInputSchema_def
    by (simp only: zod_accepts.simps(9) option.case json.case zod_accepts_three_fields accepts_uuid
        accepts_maxResults accepts_providerConfig)
  show ?thesis
    unfolding rejected accepted by (rule refl)
qed

lemma BM25ConfigSchema_bounds:
  "zod_accepts uuid BM25ConfigSchema (Some (JObj [(''k1'', JNum x), (''b'', JNum y)])) =
     (0 \<le> x \<and> x \<le> 3 \<and> 0 \<le> y \<and> y \<le> 1)"
  by (simp add: BM25ConfigSchema_def)

text \<open>
  C6 as stated has every request with \<open>k1\<close> outside [0,3] or \<open>b\<close> outside [0,1] rejected.
  A request with \<open>k1 = 5\<close> and \<open>b = 2\<close> passes the input schema and reaches the
  implementation unchanged, although \<open>BM25ConfigSchema\<close>, which the procedure does not
  apply, rejects that provider configuration.
\<close>

theorem upsert_input_validation_counterexample:
  "upsert_procedure uuid_layout (\<lambda>parsed. parsed) out_of_range_request =
     Inr out_of_range_request \<and>
   \<not> zod_accepts uuid_layout BM25ConfigSchema
       (Some (JObj [(''k1'', JNum 5), (''b'', JNum 2)]))"
proof -
  have "zod_accepts uuid_layout UpsertToolSearchConfigRequestSchema (Some out_of_range_request)"
    by (simp add: UpsertToolSearchConfigRequestSchema_def ToolSearchConfigUpsertInputSchema_def
        out_of_range_request_def example_uuid_layout)
  then have "upsert_procedure uuid_layout (\<lambda>parsed. parsed) out_of_range_request =
      Inr out_of_range_request"
    by (simp add: upsert_procedure_def upsert_parsed_def out_of_range_request_def)
  then show ?thesis
    by (simp add: BM25ConfigSchema_bounds)
qed

lemma maxResults_boundaries:
  "zod_accepts uuid (ZNumber (Some 1) (Some 20) True) (Some (JNum 1))"
  "zod_accepts uuid (ZNumber (Some 1) (Some 20) True) (Some (JNum 20))"
  "\<not> zod_accepts uuid (ZNumber (Some 1) (Some 20) True) (Some (JNum 0))"
  "\<not> zod_accepts uuid (ZNumber (Some 1) (Some 20) True) (Some (JNum 21))"
  by simp_all

end
